theory Spec2Isabelle
  imports Main "HOL-Library.Word"
begin

section \<open>stl2vrml: the field tokenizer\<close>

text \<open>
  \<^verbatim>\<open>isspace\<close> of the C library in the "C" locale: space, horizontal tab, line feed,
  vertical tab, form feed and carriage return. (The source passes a plain \<^verbatim>\<open>char\<close>; for
  the bytes from 0x80 on, which C leaves open there, the model answers no.)
\<close>

definition isspace :: "char \<Rightarrow> bool" where
  "isspace c \<longleftrightarrow>
     c = CHR '' '' \<or> c = CHR 0x09 \<or> c = CHR 0x0A \<or> c = CHR 0x0B \<or> c = CHR 0x0C \<or> c = CHR 0x0D"

text \<open>
  \<^verbatim>\<open>str.c_str()\<close> read through a \<^verbatim>\<open>const char *\<close>: the walk of \<^verbatim>\<open>StringFields\<close>
  stops at the first NUL character, so only the text before it is seen.
\<close>

definition c_str :: "string \<Rightarrow> string" where
  "c_str str = takeWhile (\<lambda>c. c \<noteq> CHR 0x00) str"

text \<open>\<^verbatim>\<open>while (isspace(*pstr)) ++pstr;\<close>\<close>

definition skip_spaces :: "string \<Rightarrow> string" where
  "skip_spaces p = dropWhile isspace p"

text \<open>\<^verbatim>\<open>if (*pstr == ',' || *pstr == ';') ++pstr;\<close>\<close>

definition skip_delim :: "string \<Rightarrow> string" where
  "skip_delim p =
     (case p of
        [] \<Rightarrow> []
      | c # cs \<Rightarrow> if c = CHR '','' \<or> c = CHR '';'' then cs else c # cs)"

text \<open>The condition of the loop that collects one field (the NUL test is the end of the list).\<close>

definition field_char :: "char \<Rightarrow> bool" where
  "field_char c \<longleftrightarrow> \<not> isspace c \<and> c \<noteq> CHR '','' \<and> c \<noteq> CHR '';''"

lemma length_skip_spaces: "length (skip_spaces p) \<le> length p"
  by (simp add: skip_spaces_def length_dropWhile_le)

lemma length_skip_delim: "length (skip_delim p) \<le> length p"
  by (simp add: skip_delim_def split: list.splits)

lemma StringFields_progress:
  "p \<noteq> [] \<Longrightarrow>
   length (dropWhile field_char (skip_spaces (skip_delim (skip_spaces p)))) < length p"
proof (cases p)
  case Nil
  assume "p \<noteq> []"
  with Nil show ?thesis by simp
next
  case (Cons c cs)
  let ?q = "skip_spaces (skip_delim (skip_spaces p))"
  have le: "length (dropWhile field_char ?q) \<le> length ?q"
    by (rule length_dropWhile_le)
  show ?thesis
  proof (cases "isspace c")
    case True
    then have "length (skip_spaces p) \<le> length cs"
      using Cons by (simp add: skip_spaces_def length_dropWhile_le)
    moreover have "length ?q \<le> length (skip_spaces p)"
      using length_skip_spaces length_skip_delim le_trans by blast
    ultimately show ?thesis using le Cons by simp
  next
    case notsp: False
    then have sp: "skip_spaces p = c # cs"
      using Cons by (simp add: skip_spaces_def)
    show ?thesis
    proof (cases "c = CHR '','' \<or> c = CHR '';''")
      case True
      then have "skip_delim (skip_spaces p) = cs"
        using sp by (auto simp: skip_delim_def)
      then have "length ?q \<le> length cs"
        by (simp add: length_skip_spaces)
      then show ?thesis using le Cons by simp
    next
      case False
      then have "skip_delim (skip_spaces p) = c # cs"
        using sp by (simp add: skip_delim_def)
      then have q: "?q = c # cs"
        using notsp by (simp add: skip_spaces_def)
      have "field_char c"
        using notsp False by (simp add: field_char_def)
      then have "dropWhile field_char ?q = dropWhile field_char cs"
        using q by simp
      then show ?thesis
        using Cons by (simp add: length_dropWhile_le less_Suc_eq_le)
    qed
  qed
qed

text \<open>
  The outer loop of \<^verbatim>\<open>StringFields\<close>, on the text that is left at \<^verbatim>\<open>pstr\<close>: skip
  spaces, skip at most one comma or semicolon, skip spaces, collect the characters of one
  field and push it, also when it is empty.
\<close>

function StringFields_loop :: "string \<Rightarrow> string list" where
  "StringFields_loop p =
     (if p = [] then []
      else
        let p3 = skip_spaces (skip_delim (skip_spaces p))
        in takeWhile field_char p3 # StringFields_loop (dropWhile field_char p3))"
  by pat_completeness auto
termination
  by (relation "measure length") (simp_all add: StringFields_progress)

definition StringFields :: "string \<Rightarrow> string list" where
  "StringFields str = StringFields_loop (c_str str)"


section \<open>The file abstraction (SimpleFile.h)\<close>

text \<open>
  A file opened for reading: its bytes and the position of the stream. The files of the
  converter are opened before \<^verbatim>\<open>ConvertStlToWrl\<close> runs, so the \<^verbatim>\<open>IsOpen\<close>
  assertions hold and are not modelled. \<^verbatim>\<open>m_lineCounter\<close> is only ever written by
  \<^verbatim>\<open>ReadLine\<close>; nothing in the converter reads it, and it is left out.
\<close>

record File =
  data :: "char list"
  pos :: nat

text \<open>\<^verbatim>\<open>fseek(m_file, position, SEEK_SET)\<close> on a regular file: any offset is accepted.\<close>

definition Seek :: "File \<Rightarrow> nat \<Rightarrow> bool \<times> File" where
  "Seek f position = (True, f\<lparr>pos := position\<rparr>)"

text \<open>
  \<^verbatim>\<open>fread(data, 1, numbytes, m_file)\<close>: the bytes that are there, at most
  \<^verbatim>\<open>numbytes\<close> of them; the count returned is the length of the list.
\<close>

definition Read :: "File \<Rightarrow> nat \<Rightarrow> char list \<times> File" where
  "Read f numbytes =
     (let got = take numbytes (drop (pos f) (data f))
      in (got, f\<lparr>pos := pos f + length got\<rparr>))"

text \<open>\<^verbatim>\<open>size_t\<close> of a 64-bit build.\<close>

type_synonym size_t = "64 word"

text \<open>
  \<^verbatim>\<open>Length\<close>: the end position reported by \<^verbatim>\<open>ftell\<close>, converted to
  \<^verbatim>\<open>size_t\<close>; the position of the stream is restored. The source documents that the
  value is wrong for files over 2GB (\<^verbatim>\<open>ftell\<close> returns a \<^verbatim>\<open>long\<close>); the model
  is exact below that size.
\<close>

definition Length :: "File \<Rightarrow> size_t" where
  "Length f = of_nat (length (data f))"

lemma ReadLine_chars_progress:
  "(c # cs, f') = Read f (Suc 0) \<Longrightarrow> length (data f') - pos f' < length (data f) - pos f"
proof -
  assume "(c # cs, f') = Read f (Suc 0)"
  then have r: "Read f 1 = (c # cs, f')"
    by simp
  then have "take 1 (drop (pos f) (data f)) = c # cs"
    by (simp add: Read_def Let_def)
  then have lt: "pos f < length (data f)"
    by (cases "pos f < length (data f)") auto
  have "length (take 1 (drop (pos f) (data f))) = 1"
    using lt by simp
  then have "pos f' = pos f + 1" and "data f' = data f"
    using r by (auto simp: Read_def Let_def)
  then show ?thesis using lt by simp
qed

text \<open>
  The inner loop of \<^verbatim>\<open>ReadLine\<close>:
  \<^verbatim>\<open>while (Read(&c, 1) == 1 && c != '\n') { readAny = true; if (c != '\r') text += c; }\<close>
\<close>

function ReadLine_chars :: "File \<Rightarrow> string \<Rightarrow> bool \<Rightarrow> File \<times> string \<times> bool" where
  "ReadLine_chars f text readAny =
     (case Read f 1 of
        (c # cs, f') \<Rightarrow>
          if c \<noteq> CHR 0x0A
          then ReadLine_chars f' (if c \<noteq> CHR 0x0D then text @ [c] else text) True
          else (f', text, readAny)
      | ([], f') \<Rightarrow> (f', text, readAny))"
  by pat_completeness auto
termination
  by (relation "measure (\<lambda>(f, text, readAny). length (data f) - pos f)")
     (auto intro: ReadLine_chars_progress)

text \<open>
  The \<^verbatim>\<open>do ... while ((skipBlankLines && text.empty()) && readAny)\<close> loop of
  \<^verbatim>\<open>ReadLine\<close>. \<^verbatim>\<open>readAny\<close> is set before the loop and never reset in it. The loop
  need not end, so the result is an option: \<open>None\<close> is a call that does not return.
\<close>

partial_function (option) ReadLine_lines ::
  "File \<Rightarrow> bool \<Rightarrow> bool \<Rightarrow> (bool \<times> string \<times> File) option" where
  "ReadLine_lines f skipBlankLines readAny =
     (case ReadLine_chars f [] readAny of
        (f', text, readAny') \<Rightarrow>
          if (skipBlankLines \<and> text = []) \<and> readAny'
          then ReadLine_lines f' skipBlankLines readAny'
          else Some (readAny', text, f'))"

declare ReadLine_lines.simps [code]

text \<open>\<^verbatim>\<open>ReadLine(text, skipBlankLines)\<close>: the value returned, the text and the file.\<close>

definition ReadLine :: "File \<Rightarrow> bool \<Rightarrow> (bool \<times> string \<times> File) option" where
  "ReadLine f skipBlankLines = ReadLine_lines f skipBlankLines False"


section \<open>Points, errors and the floating-point environment\<close>

text \<open>
  The strings thrown by the reader (\<^verbatim>\<open>const char *\<close>) are format errors, the string
  thrown by the writer (\<^verbatim>\<open>writeError\<close>) is the write error.
\<close>

datatype error = FormatError string | WriteError

text \<open>
  A \<^verbatim>\<open>double\<close> is a value of the type parameter \<open>'d\<close>. What the program asks of the
  C runtime and of the floating-point unit is a parameter of the model: \<^verbatim>\<open>atof\<close>, the
  test \<^verbatim>\<open>v == 0.\<close>, \<^verbatim>\<open>_isnan\<close>, \<^verbatim>\<open>_finite\<close>, the conversion of the bits of a
  \<^verbatim>\<open>float\<close> to a \<^verbatim>\<open>double\<close>, \<^verbatim>\<open><\<close>, \<^verbatim>\<open>+\<close>, \<^verbatim>\<open>-\<close>, \<^verbatim>\<open>/\<close>, unary minus,
  the constants \<^verbatim>\<open>2.\<close> and \<^verbatim>\<open>DBL_MAX\<close>.
\<close>

record 'd fpenv =
  fp_atof :: "string \<Rightarrow> 'd"
  fp_is_zero :: "'d \<Rightarrow> bool"
  fp_isnan :: "'d \<Rightarrow> bool"
  fp_finite :: "'d \<Rightarrow> bool"
  fp_of_float :: "32 word \<Rightarrow> 'd"
  fp_less :: "'d \<Rightarrow> 'd \<Rightarrow> bool"
  fp_add :: "'d \<Rightarrow> 'd \<Rightarrow> 'd"
  fp_sub :: "'d \<Rightarrow> 'd \<Rightarrow> 'd"
  fp_div :: "'d \<Rightarrow> 'd \<Rightarrow> 'd"
  fp_neg :: "'d \<Rightarrow> 'd"
  fp_two :: "'d"
  fp_DBL_MAX :: "'d"

record 'd Point =
  pt_x :: 'd
  pt_y :: 'd
  pt_z :: 'd


section \<open>StlReader\<close>

record StlReader =
  m_infile :: File
  m_isBinaryStl :: bool
  m_numFacets :: size_t
  m_curFacet :: size_t

text \<open>An unsigned integer stored in little-endian byte order.\<close>

definition le_word :: "char list \<Rightarrow> 'a::len word" where
  "le_word bytes = foldr (\<lambda>b w. of_char b + 256 * w) bytes 0"

text \<open>
  \<^verbatim>\<open>sizeof(BinaryStlRecord)\<close> with the packing of one byte that the source asks for
  (\<^verbatim>\<open>#pragma pack(1)\<close>): three and nine \<^verbatim>\<open>float\<close>s and one \<^verbatim>\<open>uint16_t\<close>, with
  no padding.
\<close>

definition sizeof_BinaryStlRecord :: nat where
  "sizeof_BinaryStlRecord = 3 * 4 + 9 * 4 + 2"

text \<open>
  \<^verbatim>\<open>ReadHeaderFromBinaryStl\<close>. The file is returned also when the function throws,
  since \<^verbatim>\<open>IsBinaryStl\<close> catches the exception and goes on with the same file.
\<close>

definition ReadHeaderFromBinaryStl :: "File \<Rightarrow> (error + size_t) \<times> File" where
  "ReadHeaderFromBinaryStl f =
     (case Seek f 80 of
        (ok, f1) \<Rightarrow>
          if \<not> ok then (Inl (FormatError ''Seek error reading header of binary STL file.''), f1)
          else
            (case Read f1 4 of
               (bytes, f2) \<Rightarrow>
                 if length bytes \<noteq> 4
                 then (Inl (FormatError ''Failed reading facet count from binary STL file.''), f2)
                 else
                   let facets = (le_word bytes :: 32 word)
                   in if facets < 1
                      then (Inl (FormatError ''Facet count in file header is not valid.''), f2)
                      else (Inr (ucast facets), f2)))"

definition IsBinaryStl :: "File \<Rightarrow> bool \<times> File" where
  "IsBinaryStl f =
     (case ReadHeaderFromBinaryStl f of
        (Inl e, f') \<Rightarrow> (False, f')
      | (Inr numFacets, f') \<Rightarrow>
          if numFacets < 1 then (False, f')
          else
            let expectedLength = 80 + 4 + numFacets * of_nat sizeof_BinaryStlRecord
            in (Length f' = expectedLength, f'))"

definition badStl :: string where
  "badStl = ''File does not appear to be in STL format.'' @ [CHR 0x0D, CHR 0x0A]"

definition ReadHeaderFromAsciiStl :: "StlReader \<Rightarrow> (error + StlReader) option" where
  "ReadHeaderFromAsciiStl r =
     (case Seek (m_infile r) 0 of
        (_, f0) \<Rightarrow>
          (case ReadLine f0 True of
             None \<Rightarrow> None
           | Some (ok, text, f1) \<Rightarrow>
               if \<not> ok then Some (Inl (FormatError badStl))
               else
                 let flds = StringFields text
                 in if flds = [] then Some (Inl (FormatError badStl))
                    else if flds ! 0 \<noteq> ''solid''
                    then Some (Inl (FormatError
                      (''File does not appear to be an ASCII STL file.  Expected keyword \"solid\".''
                         @ [CHR 0x0A])))
                    else Some (Inr (r\<lparr>m_infile := f1\<rparr>))))"

definition ReadHeaderFromStl :: "StlReader \<Rightarrow> (error + StlReader) option" where
  "ReadHeaderFromStl r =
     (case Seek (m_infile r) 0 of
        (_, f0) \<Rightarrow>
          (case IsBinaryStl f0 of
             (isBinary, f1) \<Rightarrow>
               let r1 = r\<lparr>m_infile := f1, m_numFacets := 0, m_curFacet := 0,
                          m_isBinaryStl := isBinary\<rparr>
               in if isBinary
                  then (case ReadHeaderFromBinaryStl f1 of
                          (Inl e, f2) \<Rightarrow> Some (Inl e)
                        | (Inr numFacets, f2) \<Rightarrow>
                            Some (Inr (r1\<lparr>m_infile := f2, m_numFacets := numFacets\<rparr>)))
                  else ReadHeaderFromAsciiStl r1))"

text \<open>\<^verbatim>\<open>flds[i][0]\<close>: the first character of a string, NUL when the string is empty.\<close>

definition first_char :: "string \<Rightarrow> char" where
  "first_char s = (case s of [] \<Rightarrow> CHR 0x00 | c # cs \<Rightarrow> c)"

definition ReadVertexFromAsciiStl ::
  "'d fpenv \<Rightarrow> File \<Rightarrow> (error + 'd Point \<times> File) option" where
  "ReadVertexFromAsciiStl fp f =
     (case ReadLine f True of
        None \<Rightarrow> None
      | Some (ok, text, f1) \<Rightarrow>
          if \<not> ok
          then Some (Inl (FormatError
            (''Unexpected end of file while looking for \"vertex\".'' @ [CHR 0x0A])))
          else
            let flds = StringFields text
            in if length flds < 4
               then Some (Inl (FormatError
                 (''Malformed vertex line.  Expected x, y, and z coordinates.'' @ [CHR 0x0A])))
               else if flds ! 0 \<noteq> ''vertex''
               then Some (Inl (FormatError (''Missing or malformed vertex.'' @ [CHR 0x0A])))
               else
                 let point = \<lparr>pt_x = fp_atof fp (flds ! 1),
                              pt_y = fp_atof fp (flds ! 2),
                              pt_z = fp_atof fp (flds ! 3)\<rparr>
                 in if (fp_is_zero fp (pt_x point) \<and> first_char (flds ! 1) \<noteq> CHR ''0'') \<or>
                       (fp_is_zero fp (pt_y point) \<and> first_char (flds ! 2) \<noteq> CHR ''0'') \<or>
                       (fp_is_zero fp (pt_z point) \<and> first_char (flds ! 3) \<noteq> CHR ''0'') \<or>
                       fp_isnan fp (pt_x point) \<or> fp_isnan fp (pt_y point) \<or>
                       fp_isnan fp (pt_z point) \<or>
                       \<not> fp_finite fp (pt_x point) \<or> \<not> fp_finite fp (pt_y point) \<or>
                       \<not> fp_finite fp (pt_z point)
                    then Some (Inl (FormatError
                      (''One or more invalid coordinate values after \"vertex\".'' @ [CHR 0x0A])))
                    else Some (Inr (point, f1)))"

text \<open>
  The loop \<^verbatim>\<open>for (int i = 0; i < 3; ++i)\<close> of \<^verbatim>\<open>ReadFacetFromAsciiStl\<close>, with the
  number of vertices still to read.
\<close>

fun ReadVertices ::
  "'d fpenv \<Rightarrow> nat \<Rightarrow> File \<Rightarrow> 'd Point list \<Rightarrow> (error + 'd Point list \<times> File) option" where
  "ReadVertices fp 0 f coords = Some (Inr (coords, f))"
| "ReadVertices fp (Suc n) f coords =
     (case ReadVertexFromAsciiStl fp f of
        None \<Rightarrow> None
      | Some (Inl e) \<Rightarrow> Some (Inl e)
      | Some (Inr (point, f1)) \<Rightarrow> ReadVertices fp n f1 (coords @ [point]))"

text \<open>The test of a line that is one keyword, or the same keyword written as two flds.\<close>

definition keyword_line :: "string list \<Rightarrow> string \<Rightarrow> string \<Rightarrow> string \<Rightarrow> bool" where
  "keyword_line flds one first second \<longleftrightarrow>
     (length flds \<ge> 1 \<and> flds ! 0 = one) \<or>
     (length flds \<ge> 2 \<and> flds ! 0 = first \<and> flds ! 1 = second)"


text \<open>
  \<^verbatim>\<open>ReadFacetFromAsciiStl\<close>: the value returned, \<^verbatim>\<open>coords\<close> and the file; a thrown
  string is \<open>Inl\<close>.
\<close>

definition ReadFacetFromAsciiStl ::
  "'d fpenv \<Rightarrow> File \<Rightarrow> 'd Point list \<Rightarrow> (error + bool \<times> 'd Point list \<times> File) option" where
  "ReadFacetFromAsciiStl fp f coords =
     (case ReadLine f True of
        None \<Rightarrow> None
      | Some (ok, text, f1) \<Rightarrow>
          if \<not> ok then Some (Inr (False, coords, f1))
          else
            let flds = StringFields text
            in if flds = [] then Some (Inr (False, coords, f1))
               else if flds ! 0 = ''endsolid'' \<or>
                       (length flds > 1 \<and> flds ! 0 = ''end'' \<and> flds ! 1 = ''solid'')
               then Some (Inr (False, coords, f1))
               else if flds ! 0 = ''facet''
               then
                 (case ReadLine f1 True of
                    None \<Rightarrow> None
                  | Some (ok2, text2, f2) \<Rightarrow>
                      if \<not> ok2 then Some (Inr (False, coords, f2))
                      else if \<not> keyword_line (StringFields text2) ''outerloop'' ''outer'' ''loop''
                      then Some (Inl (FormatError
                        (''A facet is missing its outer loop.'' @ [CHR 0x0A])))
                      else
                        (case ReadVertices fp 3 f2 coords of
                           None \<Rightarrow> None
                         | Some (Inl e) \<Rightarrow> Some (Inl e)
                         | Some (Inr (coords3, f3)) \<Rightarrow>
                             (case ReadLine f3 True of
                                None \<Rightarrow> None
                              | Some (ok4, text4, f4) \<Rightarrow>
                                  if \<not> ok4
                                  then Some (Inl (FormatError
                                    (''Unexpected end of file while reading a facet.''
                                       @ [CHR 0x0A])))
                                  else if \<not> keyword_line (StringFields text4)
                                            ''endloop'' ''end'' ''loop''
                                  then Some (Inl (FormatError
                                    (''Expected \"end loop\" after vertex.'' @ [CHR 0x0A])))
                                  else
                                    (case ReadLine f4 True of
                                       None \<Rightarrow> None
                                     | Some (ok5, text5, f5) \<Rightarrow>
                                         if \<not> ok5
                                         then Some (Inl (FormatError
                                           (''Unexpected end of file while reading a facet.''
                                              @ [CHR 0x0A])))
                                         else if \<not> keyword_line (StringFields text5)
                                                   ''endfacet'' ''end'' ''facet''
                                         then Some (Inl (FormatError
                                           (''Expected \"end facet\" after \"end loop\".''
                                              @ [CHR 0x0A])))
                                         else Some (Inr (True, coords3, f5))))))
               else Some (Inl (FormatError
                 (''Expected \"facet\" or \"end solid\"'' @ [CHR 0x0A]))))"

text \<open>The fields of a \<^verbatim>\<open>BinaryStlRecord\<close> read from its bytes (little-endian, packed).\<close>

definition m_coorddata :: "char list \<Rightarrow> nat \<Rightarrow> 32 word" where
  "m_coorddata rec k = le_word (take 4 (drop (12 + 4 * k) rec))"

definition m_attributeSize :: "char list \<Rightarrow> 16 word" where
  "m_attributeSize rec = le_word (take 2 (drop 48 rec))"

definition ReadFacetFromBinaryStl ::
  "'d fpenv \<Rightarrow> StlReader \<Rightarrow> 'd Point list \<Rightarrow> error + bool \<times> 'd Point list \<times> StlReader" where
  "ReadFacetFromBinaryStl fp r coords =
     (if m_curFacet r \<ge> m_numFacets r then Inr (False, coords, r)
      else
        case Read (m_infile r) sizeof_BinaryStlRecord of
          (rec, f1) \<Rightarrow>
            if length rec \<noteq> sizeof_BinaryStlRecord
            then Inl (FormatError ''Failed reading facet record from binary STL file.'')
            else if m_attributeSize rec \<noteq> 0
            then Inl (FormatError ''Invalid attribute size in binary STL file.'')
            else
              Inr (True,
                   coords @
                   map (\<lambda>i. \<lparr>pt_x = fp_of_float fp (m_coorddata rec (3 * i)),
                              pt_y = fp_of_float fp (m_coorddata rec (3 * i + 1)),
                              pt_z = fp_of_float fp (m_coorddata rec (3 * i + 2))\<rparr>) [0, 1, 2],
                   r\<lparr>m_infile := f1, m_curFacet := m_curFacet r + 1\<rparr>))"

definition ReadFacetFromStl ::
  "'d fpenv \<Rightarrow> StlReader \<Rightarrow> 'd Point list \<Rightarrow>
   (error + bool \<times> 'd Point list \<times> StlReader) option" where
  "ReadFacetFromStl fp r coords =
     (if m_isBinaryStl r then Some (ReadFacetFromBinaryStl fp r [])
      else
        case ReadFacetFromAsciiStl fp (m_infile r) [] of
          None \<Rightarrow> None
        | Some (Inl e) \<Rightarrow> Some (Inl e)
        | Some (Inr (got, coords', f')) \<Rightarrow> Some (Inr (got, coords', r\<lparr>m_infile := f'\<rparr>)))"


section \<open>VrmlWriter\<close>

text \<open>
  A file opened for writing. What has been written is kept as the sequence of the
  \<^verbatim>\<open>Printf\<close> calls that succeeded, each with its format string and its arguments; the
  text of the file is their rendering by \<^verbatim>\<open>vsprintf_s\<close>, in this order. Whether a
  write succeeds is up to the environment: \<open>faults\<close> lists the outcomes of the writes to
  come (\<open>True\<close> is a failed \<^verbatim>\<open>fwrite\<close>); when the list is used up, writes succeed.
  Every format string of the program has literal characters, so no rendering is empty.
\<close>

datatype 'd arg = ArgD 'd | ArgZu nat

record 'd OutFile =
  written :: "(string \<times> 'd arg list) list"
  faults :: "bool list"

definition Printf :: "'d OutFile \<Rightarrow> string \<Rightarrow> 'd arg list \<Rightarrow> bool \<times> 'd OutFile" where
  "Printf f fmt args =
     (case faults f of
        [] \<Rightarrow> (True, f\<lparr>written := written f @ [(fmt, args)]\<rparr>)
      | failed # rest \<Rightarrow>
          if failed then (False, f\<lparr>faults := rest\<rparr>)
          else (True, f\<lparr>written := written f @ [(fmt, args)], faults := rest\<rparr>))"

text \<open>\<^verbatim>\<open>if (!m_file.Printf(...)) throw writeError;\<close>\<close>

definition Printf_throw :: "'d OutFile \<Rightarrow> string \<Rightarrow> 'd arg list \<Rightarrow> error + 'd OutFile" where
  "Printf_throw f fmt args =
     (case Printf f fmt args of (ok, f') \<Rightarrow> if \<not> ok then Inl WriteError else Inr f')"

text \<open>One statement after another: an exception of the first skips the second.\<close>

definition then_do :: "error + 'a \<Rightarrow> ('a \<Rightarrow> error + 'b) \<Rightarrow> error + 'b" where
  "then_do m k = (case m of Inl e \<Rightarrow> Inl e | Inr v \<Rightarrow> k v)"

definition crlf :: string where
  "crlf = [CHR 0x0D, CHR 0x0A]"

record 'd VrmlWriter =
  m_file :: "'d OutFile"
  m_triangles :: "'d Point list"

definition WriteStartOfWrl :: "'d VrmlWriter \<Rightarrow> error + 'd VrmlWriter" where
  "WriteStartOfWrl w =
     then_do
       (Printf_throw (m_file w)
          (''#VRML V2.0 utf8'' @ crlf @ ''# Model converted by stl2vrml.'' @ crlf) [])
       (\<lambda>f. Inr (w\<lparr>m_file := f\<rparr>))"

text \<open>
  The loop of \<^verbatim>\<open>WriteCoordListToWrl\<close> over the points that are left, with
  \<^verbatim>\<open>points.size()\<close> and \<^verbatim>\<open>pointsWritten\<close>.
\<close>

fun WriteCoordList_loop ::
  "'d OutFile \<Rightarrow> nat \<Rightarrow> nat \<Rightarrow> 'd Point list \<Rightarrow> error + 'd OutFile" where
  "WriteCoordList_loop f numPoints pointsWritten [] = Inr f"
| "WriteCoordList_loop f numPoints pointsWritten (point # rest) =
     then_do (Printf_throw f ''        '' []) (\<lambda>f1.
     then_do (Printf_throw f1 ''%.15G %.15G %.15G''
                [ArgD (pt_x point), ArgD (pt_y point), ArgD (pt_z point)]) (\<lambda>f2.
     then_do (if pointsWritten < numPoints - 1 then Printf_throw f2 '', '' [] else Inr f2) (\<lambda>f3.
     then_do (Printf_throw f3 crlf []) (\<lambda>f4.
     WriteCoordList_loop f4 numPoints (pointsWritten + 1) rest))))"

definition WriteCoordListToWrl :: "'d OutFile \<Rightarrow> 'd Point list \<Rightarrow> error + 'd OutFile" where
  "WriteCoordListToWrl f points = WriteCoordList_loop f (length points) 0 points"

text \<open>\<^verbatim>\<open>for (size_t i = 0; i < 3; ++i)\<close> of \<^verbatim>\<open>WriteCoordIndexesToWrl\<close>, over the \<open>i\<close> left.\<close>

fun WriteCoordIndexes_inner :: "'d OutFile \<Rightarrow> nat \<Rightarrow> nat list \<Rightarrow> error + 'd OutFile" where
  "WriteCoordIndexes_inner f trndx [] = Inr f"
| "WriteCoordIndexes_inner f trndx (i # rest) =
     then_do (Printf_throw f ''%zu, '' [ArgZu (trndx * 3 + i)]) (\<lambda>f1.
     WriteCoordIndexes_inner f1 trndx rest)"

text \<open>
  \<^verbatim>\<open>for (size_t trndx = 0; trndx < numTriangles; ++trndx)\<close>, over the \<open>trndx\<close> left. The
  value returned by \<^verbatim>\<open>m_file.Printf("-1")\<close> is not looked at.
\<close>

fun WriteCoordIndexes_loop :: "'d OutFile \<Rightarrow> nat \<Rightarrow> nat list \<Rightarrow> error + 'd OutFile" where
  "WriteCoordIndexes_loop f numTriangles [] = Inr f"
| "WriteCoordIndexes_loop f numTriangles (trndx # rest) =
     then_do (Printf_throw f ''      '' []) (\<lambda>f1.
     then_do (WriteCoordIndexes_inner f1 trndx [0, 1, 2]) (\<lambda>f2.
     then_do (Inr (snd (Printf f2 ''-1'' []))) (\<lambda>f3.
     then_do (if trndx < numTriangles - 1 then Printf_throw f3 '','' [] else Inr f3) (\<lambda>f4.
     then_do (Printf_throw f4 crlf []) (\<lambda>f5.
     WriteCoordIndexes_loop f5 numTriangles rest)))))"

definition WriteCoordIndexesToWrl :: "'d OutFile \<Rightarrow> nat \<Rightarrow> error + 'd OutFile" where
  "WriteCoordIndexesToWrl f numTriangles =
     WriteCoordIndexes_loop f numTriangles [0..<numTriangles]"


text \<open>The format strings of \<^verbatim>\<open>WriteFacetsToWrl\<close>.\<close>

definition shape_open :: string where
  "shape_open =
     crlf @ ''Shape {'' @ crlf @
     ''  appearance Appearance {'' @ crlf @
     ''    material Material {'' @ crlf @
     ''      diffuseColor 0.8 0.8 0.8'' @ crlf @
     ''    }'' @ crlf @
     ''  }'' @ crlf @
     ''  geometry IndexedFaceSet {'' @ crlf @
     ''    coord Coordinate {'' @ crlf @
     ''      point ['' @ crlf"

definition shape_middle :: string where
  "shape_middle =
     ''      ]'' @ crlf @
     ''    }'' @ crlf @
     ''    coordIndex ['' @ crlf"

definition shape_close :: string where
  "shape_close =
     ''    ]'' @ crlf @
     ''  }'' @ crlf @
     ''}'' @ crlf"

text \<open>
  \<^verbatim>\<open>WriteFacetsToWrl\<close>. A failed \<^verbatim>\<open>assert((points.size() % 3) == 0)\<close> ends the
  program (in a build that keeps its assertions); it is the failure \<open>AssertionFailed\<close>.
\<close>

datatype failure = Thrown error | AssertionFailed

definition WriteFacetsToWrl :: "'d OutFile \<Rightarrow> 'd Point list \<Rightarrow> failure + 'd OutFile" where
  "WriteFacetsToWrl f points =
     (if length points mod 3 \<noteq> 0 then Inl AssertionFailed
      else
        let numTriangles = length points div 3
        in if numTriangles < 1 then Inr f
           else
             case then_do (Printf_throw f shape_open []) (\<lambda>f1.
                  then_do (WriteCoordListToWrl f1 points) (\<lambda>f2.
                  then_do (Printf_throw f2 shape_middle []) (\<lambda>f3.
                  then_do (WriteCoordIndexesToWrl f3 numTriangles) (\<lambda>f4.
                  Printf_throw f4 shape_close [])))) of
               Inl e \<Rightarrow> Inl (Thrown e)
             | Inr f5 \<Rightarrow> Inr f5)"

definition maxPointsPerFaceSet :: nat where
  "maxPointsPerFaceSet = 3000"

definition WriteFacetToWrl :: "'d VrmlWriter \<Rightarrow> 'd Point list \<Rightarrow> failure + 'd VrmlWriter" where
  "WriteFacetToWrl w coords =
     (let w1 = w\<lparr>m_triangles := m_triangles w @ coords\<rparr>
      in if length (m_triangles w1) \<ge> maxPointsPerFaceSet
         then (case WriteFacetsToWrl (m_file w1) (m_triangles w1) of
                 Inl e \<Rightarrow> Inl e
               | Inr f \<Rightarrow> Inr (w1\<lparr>m_file := f, m_triangles := []\<rparr>))
         else Inr w1)"

text \<open>\<^verbatim>\<open>std::max(a, b)\<close>: \<^verbatim>\<open>(a < b) ? b : a\<close>.\<close>

definition std_max :: "'d fpenv \<Rightarrow> 'd \<Rightarrow> 'd \<Rightarrow> 'd" where
  "std_max fp a b = (if fp_less fp a b then b else a)"

definition WriteEndOfWrl ::
  "'d fpenv \<Rightarrow> 'd VrmlWriter \<Rightarrow> 'd Point \<Rightarrow> 'd Point \<Rightarrow> failure + 'd VrmlWriter" where
  "WriteEndOfWrl fp w emin emax =
     (case (if m_triangles w \<noteq> [] then WriteFacetsToWrl (m_file w) (m_triangles w)
            else Inr (m_file w)) of
        Inl e \<Rightarrow> Inl e
      | Inr f \<Rightarrow>
          (case then_do (Printf_throw f
                     (crlf @ ''Viewpoint {'' @ crlf @
                      ''  description \"View_1\"'' @ crlf @
                      ''  orientation 1 0 0 0'' @ crlf) []) (\<lambda>f1.
                then_do (Printf_throw f1 (''  position %G %G %G'' @ [CHR 0x0A])
                     [ArgD (fp_add fp (pt_x emin)
                              (fp_div fp (fp_sub fp (pt_x emax) (pt_x emin)) (fp_two fp))),
                      ArgD (fp_add fp (pt_y emin)
                              (fp_div fp (fp_sub fp (pt_y emax) (pt_y emin)) (fp_two fp))),
                      ArgD (fp_add fp
                              (fp_add fp (pt_z emin)
                                 (fp_div fp (fp_sub fp (pt_z emax) (pt_z emin)) (fp_two fp)))
                              (std_max fp (fp_sub fp (pt_x emax) (pt_x emin))
                                          (fp_sub fp (pt_y emax) (pt_y emin))))]) (\<lambda>f2.
                then_do (Printf_throw f2 (''}'' @ crlf) []) (\<lambda>f3.
                then_do (Printf_throw f3 (''Background { skyColor 0.4 0.4 0.4 }'' @ crlf) [])
                  (\<lambda>f4.
                Printf_throw f4
                  (''NavigationInfo { type [ \"EXAMINE\" \"ANY\" ] }'' @ crlf @ crlf) [])))) of
             Inl e \<Rightarrow> Inl (Thrown e)
           | Inr f5 \<Rightarrow> Inr (w\<lparr>m_file := f5\<rparr>)))"


section \<open>The conversion\<close>

definition UpdateMinMax ::
  "'d fpenv \<Rightarrow> 'd Point \<Rightarrow> 'd Point \<times> 'd Point \<Rightarrow> 'd Point \<times> 'd Point" where
  "UpdateMinMax fp input mm =
     (case mm of
        (emin, emax) \<Rightarrow>
          let emin1 = (if fp_less fp (pt_x input) (pt_x emin)
                       then emin\<lparr>pt_x := pt_x input\<rparr> else emin);
              emin2 = (if fp_less fp (pt_y input) (pt_y emin1)
                       then emin1\<lparr>pt_y := pt_y input\<rparr> else emin1);
              emin3 = (if fp_less fp (pt_z input) (pt_z emin2)
                       then emin2\<lparr>pt_z := pt_z input\<rparr> else emin2);
              emax1 = (if fp_less fp (pt_x emax) (pt_x input)
                       then emax\<lparr>pt_x := pt_x input\<rparr> else emax);
              emax2 = (if fp_less fp (pt_y emax1) (pt_y input)
                       then emax1\<lparr>pt_y := pt_y input\<rparr> else emax1);
              emax3 = (if fp_less fp (pt_z emax2) (pt_z input)
                       then emax2\<lparr>pt_z := pt_z input\<rparr> else emax2)
          in (emin3, emax3))"

text \<open>
  The loop \<^verbatim>\<open>while (reader.ReadFacetFromStl(coords))\<close> of \<^verbatim>\<open>ConvertStlToWrl\<close>. The
  dots written to \<^verbatim>\<open>stderr\<close> and their counter are not part of the files and are left
  out. \<open>None\<close> is a run that does not return.
\<close>

partial_function (option) ConvertStlToWrl_loop ::
  "'d fpenv \<Rightarrow> StlReader \<Rightarrow> 'd VrmlWriter \<Rightarrow> 'd Point \<times> 'd Point \<Rightarrow> 'd Point list \<Rightarrow>
   (failure + StlReader \<times> 'd VrmlWriter \<times> 'd Point \<times> 'd Point) option" where
  "ConvertStlToWrl_loop fp reader writer mm coords =
     (case ReadFacetFromStl fp reader coords of
        None \<Rightarrow> None
      | Some (Inl e) \<Rightarrow> Some (Inl (Thrown e))
      | Some (Inr (got, coords', reader')) \<Rightarrow>
          if \<not> got then Some (Inr (reader', writer, mm))
          else
            (case WriteFacetToWrl writer coords' of
               Inl e \<Rightarrow> Some (Inl e)
             | Inr writer' \<Rightarrow>
                 ConvertStlToWrl_loop fp reader' writer'
                   (fold (UpdateMinMax fp) coords' mm) coords'))"

declare ConvertStlToWrl_loop.simps [code]

text \<open>
  \<^verbatim>\<open>ConvertStlToWrl\<close>: the writer at the end, with the output file in it, or the
  failure that ended the conversion. \<^verbatim>\<open>reader.Close()\<close> closes the input file, which
  is not read again.
\<close>

definition ConvertStlToWrl ::
  "'d fpenv \<Rightarrow> File \<Rightarrow> 'd OutFile \<Rightarrow> (failure + 'd VrmlWriter) option" where
  "ConvertStlToWrl fp inFile outFile =
     (case ReadHeaderFromStl
             \<lparr>m_infile = inFile, m_isBinaryStl = False, m_numFacets = 0, m_curFacet = 0\<rparr> of
        None \<Rightarrow> None
      | Some (Inl e) \<Rightarrow> Some (Inl (Thrown e))
      | Some (Inr reader) \<Rightarrow>
          (case WriteStartOfWrl \<lparr>m_file = outFile, m_triangles = []\<rparr> of
             Inl e \<Rightarrow> Some (Inl (Thrown e))
           | Inr writer \<Rightarrow>
               let emin = \<lparr>pt_x = fp_DBL_MAX fp, pt_y = fp_DBL_MAX fp, pt_z = fp_DBL_MAX fp\<rparr>;
                   emax = \<lparr>pt_x = fp_neg fp (fp_DBL_MAX fp), pt_y = fp_neg fp (fp_DBL_MAX fp),
                           pt_z = fp_neg fp (fp_DBL_MAX fp)\<rparr>
               in (case ConvertStlToWrl_loop fp reader writer (emin, emax) [] of
                     None \<Rightarrow> None
                   | Some (Inl e) \<Rightarrow> Some (Inl e)
                   | Some (Inr (reader', writer', emin', emax')) \<Rightarrow>
                       Some (WriteEndOfWrl fp writer' emin' emax'))))"



section \<open>Notions of the specification\<close>

text \<open>
  The tokens of the specification: the maximal runs of characters that are not whitespace,
  comma or semicolon, in their order.
\<close>

definition is_separator :: "char \<Rightarrow> bool" where
  "is_separator c \<longleftrightarrow> isspace c \<or> c = CHR '','' \<or> c = CHR '';''"

lemma maximal_runs_progress:
  "dropWhile is_separator s \<noteq> [] \<Longrightarrow>
   length (dropWhile (\<lambda>c. \<not> is_separator c) (dropWhile is_separator s)) < length s"
proof -
  assume ne: "dropWhile is_separator s \<noteq> []"
  then obtain c cs where cs: "dropWhile is_separator s = c # cs"
    by (cases "dropWhile is_separator s") auto
  then have "\<not> is_separator c"
    using hd_dropWhile [OF ne] by simp
  then have "length (dropWhile (\<lambda>c. \<not> is_separator c) (c # cs)) \<le> length cs"
    by (simp add: length_dropWhile_le)
  moreover have "length (c # cs) \<le> length s"
    using cs length_dropWhile_le [of is_separator s] by simp
  ultimately show ?thesis
    using cs by simp
qed

function maximal_runs :: "string \<Rightarrow> string list" where
  "maximal_runs s =
     (let s1 = dropWhile is_separator s
      in if s1 = [] then []
         else takeWhile (\<lambda>c. \<not> is_separator c) s1 #
              maximal_runs (dropWhile (\<lambda>c. \<not> is_separator c) s1))"
  by pat_completeness auto
termination
  by (relation "measure length") (simp_all add: maximal_runs_progress)

declare maximal_runs.simps [simp del]
declare StringFields_loop.simps [simp del]
declare ReadLine_chars.simps [simp del]

text \<open>
  The fields of a text whose commas and semicolons are delimiters. The text is split at
  every comma and semicolon into pieces. The first piece gives its words (its maximal runs
  of characters that are not whitespace); every later piece gives its words, or one
  empty field when it has no word.
\<close>

definition is_delim :: "char \<Rightarrow> bool" where
  "is_delim c \<longleftrightarrow> c = CHR '','' \<or> c = CHR '';''"

fun pieces :: "string \<Rightarrow> string list" where
  "pieces [] = [[]]"
| "pieces (c # cs) =
     (if is_delim c then [] # pieces cs
      else (c # hd (pieces cs)) # tl (pieces cs))"

definition piece_fields :: "string \<Rightarrow> string list" where
  "piece_fields s = (if maximal_runs s = [] then [[]] else maximal_runs s)"

definition delimited_fields :: "string \<Rightarrow> string list" where
  "delimited_fields t =
     maximal_runs (hd (pieces t)) @ concat (map piece_fields (tl (pieces t)))"

text \<open>A text that does not end in a whitespace character.\<close>

definition no_trailing_space :: "string \<Rightarrow> bool" where
  "no_trailing_space t \<longleftrightarrow> t = [] \<or> \<not> isspace (last t)"

text \<open>
  A coordinate token that the specification has rejected: its value is exactly 0 and its
  first character is not \<open>0\<close>, or its value is NaN or infinite.
\<close>

definition bad_coordinate :: "'d fpenv \<Rightarrow> string \<Rightarrow> bool" where
  "bad_coordinate fp tok \<longleftrightarrow>
     (fp_is_zero fp (fp_atof fp tok) \<and> first_char tok \<noteq> CHR ''0'') \<or>
     fp_isnan fp (fp_atof fp tok) \<or> \<not> fp_finite fp (fp_atof fp tok)"

text \<open>
  The calls of \<^verbatim>\<open>WriteFacetToWrl\<close> that the loop of \<^verbatim>\<open>ConvertStlToWrl\<close> makes on
  one writer, one after the other, each with its \<^verbatim>\<open>coords\<close>.
\<close>

fun WriteFacetToWrl_calls ::
  "'d VrmlWriter \<Rightarrow> 'd Point list list \<Rightarrow> failure + 'd VrmlWriter" where
  "WriteFacetToWrl_calls w [] = Inr w"
| "WriteFacetToWrl_calls w (coords # rest) =
     (case WriteFacetToWrl w coords of
        Inl e \<Rightarrow> Inl e
      | Inr w1 \<Rightarrow> WriteFacetToWrl_calls w1 rest)"

text \<open>
  How often a format string has been written to a file. A geometry node is opened by
  \<open>shape_open\<close>, a point of its coordinate list is written with \<open>point_format\<close>, and the
  line of a triangle in its index list has one \<open>index_end\<close>.
\<close>

definition count_format :: "string \<Rightarrow> 'd OutFile \<Rightarrow> nat" where
  "count_format fmt f = length (filter (\<lambda>e. fst e = fmt) (written f))"

definition point_format :: string where
  "point_format = ''%.15G %.15G %.15G''"

definition index_end :: string where
  "index_end = ''-1''"

definition ends_with_crlf :: "string \<Rightarrow> bool" where
  "ends_with_crlf s \<longleftrightarrow> length s \<ge> 2 \<and> drop (length s - 2) s = crlf"

text \<open>
  A floating-point environment to run the model on inputs: the doubles are integers,
  \<^verbatim>\<open>atof\<close> reads the decimal digits at the start of the string (0 when there are none),
  no value is NaN or infinite, and a \<^verbatim>\<open>float\<close> is read as the integer of its bits.
\<close>

definition digit_value :: "char \<Rightarrow> int" where
  "digit_value c = of_char c - 48"

definition is_digit :: "char \<Rightarrow> bool" where
  "is_digit c \<longleftrightarrow> (48::nat) \<le> of_char c \<and> of_char c \<le> (57::nat)"

definition integer_fp :: "int fpenv" where
  "integer_fp =
     \<lparr>fp_atof = (\<lambda>s. foldl (\<lambda>n c. 10 * n + digit_value c) 0 (takeWhile is_digit s)),
      fp_is_zero = (\<lambda>v. v = 0),
      fp_isnan = (\<lambda>v. False),
      fp_finite = (\<lambda>v. True),
      fp_of_float = uint,
      fp_less = (\<lambda>a b. a < b),
      fp_add = (\<lambda>a b. a + b),
      fp_sub = (\<lambda>a b. a - b),
      fp_div = (\<lambda>a b. a div b),
      fp_neg = (\<lambda>a. - a),
      fp_two = 2,
      fp_DBL_MAX = 2 ^ 1024\<rparr>"


text \<open>
  What a run of writes has added to a file, from \<open>f\<close> to \<open>f'\<close>: no write is still to
  fail, and the numbers of geometry nodes, points and index lines have grown by the three
  numbers.
\<close>

definition wrote :: "'d OutFile \<Rightarrow> 'd OutFile \<Rightarrow> nat \<Rightarrow> nat \<Rightarrow> nat \<Rightarrow> bool" where
  "wrote f f' shapes points indexes \<longleftrightarrow>
     faults f' = [] \<and>
     count_format shape_open f' = count_format shape_open f + shapes \<and>
     count_format point_format f' = count_format point_format f + points \<and>
     count_format index_end f' = count_format index_end f + indexes"

text \<open>
  The bytes of a binary record whose normal is zero, whose nine coordinates are the
  \<^verbatim>\<open>float\<close> NaN with the bits \<open>0x7FC00000\<close>, and whose attribute field is zero.
\<close>

definition nan_record :: "char list" where
  "nan_record = replicate 12 (CHR 0x00) @
     concat (replicate 9 [CHR 0x00, CHR 0x00, CHR 0xC0, CHR 0x7F]) @ [CHR 0x00, CHR 0x00]"

text \<open>The string that \<^verbatim>\<open>ReadVertexFromAsciiStl\<close> throws for a bad coordinate.\<close>

definition invalid_coordinates :: string where
  "invalid_coordinates =
     ''One or more invalid coordinate values after \"vertex\".'' @ [CHR 0x0A]"

text \<open>The facet count in the header of a binary file: bytes 80 to 83, little-endian.\<close>

definition facet_count :: "File \<Rightarrow> 32 word" where
  "facet_count f = le_word (take 4 (drop 80 (data f)))"

text \<open>A file that holds one empty line, ended by carriage return and line feed.\<close>

definition blank_file :: File where
  "blank_file = \<lparr>data = [CHR 0x0D, CHR 0x0A], pos = 0\<rparr>"

text \<open>A new output file, on which no write fails.\<close>

definition new_file :: "'d OutFile" where
  "new_file = \<lparr>written = [], faults = []\<rparr>"

text \<open>
  ASCII inputs with LF line endings: a file that ends after the \<open>facet\<close> line of its first
  facet; the lines of one facet; a model of one facet with an empty line after the
  \<open>solid\<close> line; and the same model without the empty line.
\<close>

definition facet_cut_file :: File where
  "facet_cut_file = \<lparr>data = ''solid s'' @ [CHR 0x0A] @ ''facet normal 0 0 1'' @ [CHR 0x0A], pos = 0\<rparr>"

definition one_facet :: string where
  "one_facet =
     ''facet normal 0 0 1'' @ [CHR 0x0A] @
     ''outer loop'' @ [CHR 0x0A] @
     ''vertex 0 0 0'' @ [CHR 0x0A] @
     ''vertex 1 0 0'' @ [CHR 0x0A] @
     ''vertex 0 1 0'' @ [CHR 0x0A] @
     ''endloop'' @ [CHR 0x0A] @
     ''endfacet'' @ [CHR 0x0A]"

definition blank_line_file :: File where
  "blank_line_file =
     \<lparr>data = ''solid s'' @ [CHR 0x0A] @ [CHR 0x0A] @ one_facet @ ''endsolid'' @ [CHR 0x0A],
      pos = 0\<rparr>"

definition one_facet_file :: File where
  "one_facet_file =
     \<lparr>data = ''solid s'' @ [CHR 0x0A] @ one_facet @ ''endsolid'' @ [CHR 0x0A], pos = 0\<rparr>"


section \<open>Verification: the field tokenizer\<close>

lemma field_char_iff: "field_char c \<longleftrightarrow> \<not> is_separator c"
  by (simp add: field_char_def is_separator_def)

lemma field_char_eq: "field_char = (\<lambda>c. \<not> is_separator c)"
  by (rule ext) (rule field_char_iff)

lemma maximal_runs_separator: "is_separator c \<Longrightarrow> maximal_runs (c # s) = maximal_runs s"
proof -
  assume sep: "is_separator c"
  have "maximal_runs (c # s) =
        (let s1 = dropWhile is_separator (c # s)
         in if s1 = [] then []
            else takeWhile (\<lambda>c. \<not> is_separator c) s1 #
                 maximal_runs (dropWhile (\<lambda>c. \<not> is_separator c) s1))"
    by (rule maximal_runs.simps)
  also have "dropWhile is_separator (c # s) = dropWhile is_separator s"
    using sep by simp
  also have "(let s1 = dropWhile is_separator s
         in if s1 = [] then []
            else takeWhile (\<lambda>c. \<not> is_separator c) s1 #
                 maximal_runs (dropWhile (\<lambda>c. \<not> is_separator c) s1)) = maximal_runs s"
    by (rule maximal_runs.simps [symmetric])
  finally show ?thesis .
qed

lemma maximal_runs_field:
  "\<not> is_separator c \<Longrightarrow>
   maximal_runs (c # s) =
   takeWhile field_char (c # s) # maximal_runs (dropWhile field_char (c # s))"
  by (subst maximal_runs.simps) (simp add: field_char_eq)

lemma maximal_runs_Nil: "maximal_runs [] = []"
  by (subst maximal_runs.simps) simp

lemma maximal_runs_skip_spaces: "maximal_runs (skip_spaces p) = maximal_runs p"
proof (induction p)
  case Nil
  then show ?case by (simp add: skip_spaces_def)
next
  case (Cons c p)
  show ?case
  proof (cases "isspace c")
    case True
    then have "is_separator c" by (simp add: is_separator_def)
    then have "maximal_runs (c # p) = maximal_runs p"
      by (rule maximal_runs_separator)
    moreover have "skip_spaces (c # p) = skip_spaces p"
      using True by (simp add: skip_spaces_def)
    ultimately show ?thesis using Cons by simp
  next
    case False
    then show ?thesis by (simp add: skip_spaces_def)
  qed
qed

lemma maximal_runs_skip_delim: "maximal_runs (skip_delim p) = maximal_runs p"
proof (cases p)
  case Nil
  then show ?thesis by (simp add: skip_delim_def)
next
  case (Cons c cs)
  show ?thesis
  proof (cases "c = CHR '','' \<or> c = CHR '';''")
    case True
    then have "is_separator c" by (auto simp: is_separator_def)
    then have "maximal_runs (c # cs) = maximal_runs cs"
      by (rule maximal_runs_separator)
    then show ?thesis using Cons True by (auto simp: skip_delim_def)
  next
    case False
    then show ?thesis using Cons by (simp add: skip_delim_def)
  qed
qed

lemma skipped_head:
  "skip_spaces (skip_delim (skip_spaces p)) = c # cs \<Longrightarrow> is_separator c \<Longrightarrow>
   c = CHR '','' \<or> c = CHR '';''"
proof -
  assume eq: "skip_spaces (skip_delim (skip_spaces p)) = c # cs" and sep: "is_separator c"
  have "dropWhile isspace (skip_delim (skip_spaces p)) \<noteq> []"
    using eq by (simp add: skip_spaces_def)
  from hd_dropWhile [OF this] have "\<not> isspace c"
    using eq by (simp add: skip_spaces_def)
  then show ?thesis using sep by (simp add: is_separator_def)
qed

lemma StringFields_loop_runs:
  "filter (\<lambda>t. t \<noteq> []) (StringFields_loop p) = maximal_runs p"
proof (induction p rule: StringFields_loop.induct)
  case (1 p)
  show ?case
  proof (cases "p = []")
    case True
    then show ?thesis
      by (simp add: StringFields_loop.simps maximal_runs_Nil)
  next
    case False
    let ?p3 = "skip_spaces (skip_delim (skip_spaces p))"
    have ih: "filter (\<lambda>t. t \<noteq> []) (StringFields_loop (dropWhile field_char ?p3)) =
              maximal_runs (dropWhile field_char ?p3)"
      using "1.IH" [OF False refl] .
    have unfold: "StringFields_loop p =
                  takeWhile field_char ?p3 # StringFields_loop (dropWhile field_char ?p3)"
      using False by (subst StringFields_loop.simps) (simp add: Let_def)
    have runs: "maximal_runs p = maximal_runs ?p3"
      by (simp add: maximal_runs_skip_spaces maximal_runs_skip_delim)
    show ?thesis
    proof (cases "takeWhile field_char ?p3 = []")
      case True
      then have "dropWhile field_char ?p3 = ?p3"
        by (metis append_Nil takeWhile_dropWhile_id)
      then show ?thesis
        using True ih unfold runs by simp
    next
      case nonempty: False
      then obtain c cs where p3: "?p3 = c # cs" and fc: "field_char c"
        by (cases ?p3) (auto split: if_splits)
      then have "maximal_runs ?p3 =
                 takeWhile field_char ?p3 # maximal_runs (dropWhile field_char ?p3)"
        using maximal_runs_field [of c cs] by (simp add: field_char_iff)
      then show ?thesis
        using nonempty ih unfold runs by simp
    qed
  qed
qed

lemma StringFields_loop_chars:
  "t \<in> set (StringFields_loop p) \<Longrightarrow> c \<in> set t \<Longrightarrow> \<not> is_separator c"
proof (induction p rule: StringFields_loop.induct)
  case (1 p)
  show ?case
  proof (cases "p = []")
    case True
    then show ?thesis
      using "1.prems" by (simp add: StringFields_loop.simps)
  next
    case False
    let ?p3 = "skip_spaces (skip_delim (skip_spaces p))"
    have unfold: "StringFields_loop p =
                  takeWhile field_char ?p3 # StringFields_loop (dropWhile field_char ?p3)"
      using False by (subst StringFields_loop.simps) (simp add: Let_def)
    then consider "t = takeWhile field_char ?p3"
      | "t \<in> set (StringFields_loop (dropWhile field_char ?p3))"
      using "1.prems"(1) by auto
    then show ?thesis
    proof cases
      case 1
      then have "field_char c"
        using "1.prems"(2) by (auto dest: set_takeWhileD)
      then show ?thesis by (simp add: field_char_iff)
    next
      case 2
      then show ?thesis
        using "1.IH" [OF False refl] "1.prems"(2) by simp
    qed
  qed
qed

lemma pieces_not_Nil: "pieces t \<noteq> []"
  by (cases t) simp_all

lemma pieces_run:
  "\<forall>c \<in> set run. field_char c \<Longrightarrow>
   pieces (run @ t) = (run @ hd (pieces t)) # tl (pieces t)"
proof (induction run)
  case Nil
  then show ?case using pieces_not_Nil [of t] by simp
next
  case (Cons c run)
  then have "\<not> is_delim c"
    by (simp add: field_char_def is_delim_def)
  then show ?case using Cons by simp
qed

lemma hd_pieces_after_run:
  "t = [] \<or> \<not> field_char (hd t) \<Longrightarrow>
   hd (pieces t) = [] \<or> is_separator (hd (hd (pieces t)))"
proof (cases t)
  case Nil
  then show ?thesis by simp
next
  case (Cons c cs)
  assume "t = [] \<or> \<not> field_char (hd t)"
  then have "is_separator c"
    using Cons by (simp add: field_char_iff)
  then show ?thesis
    using Cons by simp
qed

lemma maximal_runs_run:
  assumes "run \<noteq> []" and "\<forall>c \<in> set run. field_char c"
    and "s = [] \<or> is_separator (hd s)"
  shows "maximal_runs (run @ s) = run # maximal_runs s"
proof -
  obtain c cs where run: "run = c # cs"
    using assms(1) by (cases run) auto
  have nf: "s = [] \<or> \<not> field_char (hd s)"
    using assms(3) by (simp add: field_char_iff)
  have tw: "takeWhile field_char (run @ s) = run"
    using assms(2) nf by (cases s) (simp_all add: takeWhile_append2 takeWhile_eq_all_conv [THEN iffD2])
  have dw: "dropWhile field_char (run @ s) = s"
    using assms(2) nf by (cases s) (simp_all add: dropWhile_append2 dropWhile_eq_Nil_conv [THEN iffD2])
  have "\<not> is_separator c"
    using assms(2) run by (simp add: field_char_iff)
  then have "maximal_runs (c # cs @ s) =
             takeWhile field_char (c # cs @ s) # maximal_runs (dropWhile field_char (c # cs @ s))"
    by (rule maximal_runs_field)
  then show ?thesis
    using tw dw run by simp
qed

lemma run_split:
  "run = takeWhile field_char t \<Longrightarrow> rest = dropWhile field_char t \<Longrightarrow>
   t = run @ rest \<and> (\<forall>c \<in> set run. field_char c) \<and> (rest = [] \<or> \<not> field_char (hd rest))"
proof (intro conjI)
  assume r: "run = takeWhile field_char t" and d: "rest = dropWhile field_char t"
  show "t = run @ rest"
    using r d by simp
  show "\<forall>c \<in> set run. field_char c"
    using r by (auto dest: set_takeWhileD)
  show "rest = [] \<or> \<not> field_char (hd rest)"
    using d hd_dropWhile [of field_char t] by auto
qed

lemma delimited_fields_run:
  assumes "field_char c"
  shows "delimited_fields (c # q) =
         takeWhile field_char (c # q) # delimited_fields (dropWhile field_char (c # q))"
proof -
  let ?run = "takeWhile field_char (c # q)" and ?rest = "dropWhile field_char (c # q)"
  have split: "c # q = ?run @ ?rest" and fc: "\<forall>c \<in> set ?run. field_char c"
    and nf: "?rest = [] \<or> \<not> field_char (hd ?rest)"
    using run_split [OF refl refl, of "c # q"] by blast+
  have ne: "?run \<noteq> []"
    using assms by simp
  have pc: "pieces (c # q) = (?run @ hd (pieces ?rest)) # tl (pieces ?rest)"
    using pieces_run [OF fc, of ?rest] split by simp
  have "maximal_runs (?run @ hd (pieces ?rest)) = ?run # maximal_runs (hd (pieces ?rest))"
    using ne fc hd_pieces_after_run [OF nf] by (rule maximal_runs_run)
  then show ?thesis
    unfolding delimited_fields_def pc by simp
qed

text \<open>The fields after a delimiter that has just been skipped.\<close>

lemma after_delim_space:
  "isspace c \<Longrightarrow>
   concat (map piece_fields (pieces (c # q))) = concat (map piece_fields (pieces q))"
proof -
  assume sp: "isspace c"
  then have nd: "\<not> is_delim c"
    by (auto simp: is_delim_def isspace_def)
  have "is_separator c"
    using sp by (simp add: is_separator_def)
  then have "piece_fields (c # hd (pieces q)) = piece_fields (hd (pieces q))"
    by (simp add: piece_fields_def maximal_runs_separator)
  then show ?thesis
    using nd pieces_not_Nil [of q] by (cases "pieces q") simp_all
qed

lemma after_delim_skip_spaces:
  "concat (map piece_fields (pieces (skip_spaces q))) = concat (map piece_fields (pieces q))"
  by (induction q) (simp_all add: skip_spaces_def after_delim_space del: pieces.simps)

lemma after_delim_run:
  assumes "field_char c"
  shows "concat (map piece_fields (pieces (c # q))) =
         takeWhile field_char (c # q) # delimited_fields (dropWhile field_char (c # q))"
proof -
  let ?run = "takeWhile field_char (c # q)" and ?rest = "dropWhile field_char (c # q)"
  have split: "c # q = ?run @ ?rest" and fc: "\<forall>c \<in> set ?run. field_char c"
    and nf: "?rest = [] \<or> \<not> field_char (hd ?rest)"
    using run_split [OF refl refl, of "c # q"] by blast+
  have ne: "?run \<noteq> []"
    using assms by simp
  have pc: "pieces (c # q) = (?run @ hd (pieces ?rest)) # tl (pieces ?rest)"
    using pieces_run [OF fc, of ?rest] split by simp
  have "maximal_runs (?run @ hd (pieces ?rest)) = ?run # maximal_runs (hd (pieces ?rest))"
    using ne fc hd_pieces_after_run [OF nf] by (rule maximal_runs_run)
  then show ?thesis
    unfolding delimited_fields_def pc by (simp add: piece_fields_def)
qed

lemma after_delim_delim:
  "is_delim d \<Longrightarrow>
   concat (map piece_fields (pieces (d # r))) = [] # delimited_fields (d # r)"
  by (simp add: delimited_fields_def piece_fields_def maximal_runs_Nil)

lemma delimited_fields_space: "isspace c \<Longrightarrow> delimited_fields (c # p) = delimited_fields p"
proof -
  assume sp: "isspace c"
  then have nd: "\<not> is_delim c"
    by (auto simp: is_delim_def isspace_def)
  have "is_separator c"
    using sp by (simp add: is_separator_def)
  then show ?thesis
    using nd by (simp add: delimited_fields_def maximal_runs_separator)
qed

lemma delimited_fields_skip_spaces: "delimited_fields (skip_spaces p) = delimited_fields p"
  by (induction p) (simp_all add: skip_spaces_def delimited_fields_space)

lemma skip_spaces_head: "skip_spaces p = c # cs \<Longrightarrow> \<not> isspace c"
  unfolding skip_spaces_def using hd_dropWhile [of isspace p] by (cases "dropWhile isspace p") auto

lemma StringFields_loop_step:
  assumes "skip_spaces p \<noteq> []"
  shows "delimited_fields p =
         takeWhile field_char (skip_spaces (skip_delim (skip_spaces p))) #
         delimited_fields (dropWhile field_char (skip_spaces (skip_delim (skip_spaces p))))"
proof -
  obtain c q where q: "skip_spaces p = c # q"
    using assms by (cases "skip_spaces p") auto
  have nsp: "\<not> isspace c"
    using q by (rule skip_spaces_head)
  have start: "delimited_fields p = delimited_fields (c # q)"
    using delimited_fields_skip_spaces [of p] q by simp
  show ?thesis
  proof (cases "is_delim c")
    case False
    then have fc: "field_char c"
      using nsp by (simp add: field_char_def is_delim_def)
    have "skip_spaces (skip_delim (skip_spaces p)) = c # q"
      using q False nsp by (simp add: skip_delim_def is_delim_def skip_spaces_def)
    then show ?thesis
      using start delimited_fields_run [OF fc, of q] by simp
  next
    case True
    let ?p3 = "skip_spaces q"
    have p3: "skip_spaces (skip_delim (skip_spaces p)) = ?p3"
      using q True by (auto simp: skip_delim_def is_delim_def)
    have after: "delimited_fields (c # q) = concat (map piece_fields (pieces ?p3))"
      using True by (simp add: delimited_fields_def maximal_runs_Nil after_delim_skip_spaces)
    show ?thesis
    proof (cases ?p3)
      case Nil
      then show ?thesis
        using start after p3
        by (simp add: piece_fields_def maximal_runs_Nil delimited_fields_def)
    next
      case (Cons c3 r)
      have nsp3: "\<not> isspace c3"
        using Cons by (rule skip_spaces_head)
      show ?thesis
      proof (cases "is_delim c3")
        case True
        then have "\<not> field_char c3"
          by (auto simp: field_char_def is_delim_def)
        then show ?thesis
          using start after p3 Cons after_delim_delim [OF True, of r] by simp
      next
        case False
        then have "field_char c3"
          using nsp3 by (simp add: field_char_def is_delim_def)
        then show ?thesis
          using start after p3 Cons after_delim_run [of c3 r] by simp
      qed
    qed
  qed
qed

lemma no_trailing_space_dropWhile:
  "no_trailing_space p \<Longrightarrow> no_trailing_space (dropWhile P p)"
  by (induction p) (auto simp: no_trailing_space_def split: if_splits)

lemma no_trailing_space_skip_delim:
  "no_trailing_space p \<Longrightarrow> no_trailing_space (skip_delim p)"
  by (cases p) (auto simp: no_trailing_space_def skip_delim_def split: if_splits)

lemma no_trailing_space_skipped:
  "no_trailing_space p \<Longrightarrow> p \<noteq> [] \<Longrightarrow> skip_spaces p \<noteq> []"
proof (induction p)
  case Nil
  then show ?case by simp
next
  case (Cons c p)
  then show ?case
    by (cases "p = []") (auto simp: no_trailing_space_def skip_spaces_def)
qed

lemma StringFields_loop_delimited:
  "no_trailing_space p \<Longrightarrow> StringFields_loop p = delimited_fields p"
proof (induction p rule: StringFields_loop.induct)
  case (1 p)
  show ?case
  proof (cases "p = []")
    case True
    then show ?thesis
      by (simp add: StringFields_loop.simps delimited_fields_def maximal_runs_Nil)
  next
    case False
    let ?p3 = "skip_spaces (skip_delim (skip_spaces p))"
    have nts: "no_trailing_space (dropWhile field_char ?p3)"
      using "1.prems"
      by (simp add: skip_spaces_def no_trailing_space_dropWhile no_trailing_space_skip_delim)
    have ih: "StringFields_loop (dropWhile field_char ?p3) =
              delimited_fields (dropWhile field_char ?p3)"
      using "1.IH" [OF False refl nts] .
    have unfold: "StringFields_loop p =
                  takeWhile field_char ?p3 # StringFields_loop (dropWhile field_char ?p3)"
      using False by (subst StringFields_loop.simps) (simp add: Let_def)
    have "skip_spaces p \<noteq> []"
      using "1.prems" False by (rule no_trailing_space_skipped)
    then show ?thesis
      using StringFields_loop_step [of p] unfold ih by simp
  qed
qed

lemma StringFields_loop_delimited_or_more:
  "StringFields_loop p = delimited_fields p \<or> StringFields_loop p = delimited_fields p @ [[]]"
proof (induction p rule: StringFields_loop.induct)
  case (1 p)
  show ?case
  proof (cases "p = []")
    case True
    then show ?thesis
      by (simp add: StringFields_loop.simps delimited_fields_def maximal_runs_Nil)
  next
    case False
    let ?p3 = "skip_spaces (skip_delim (skip_spaces p))"
    have ih: "StringFields_loop (dropWhile field_char ?p3) =
                delimited_fields (dropWhile field_char ?p3) \<or>
              StringFields_loop (dropWhile field_char ?p3) =
                delimited_fields (dropWhile field_char ?p3) @ [[]]"
      using "1.IH" [OF False refl] .
    have unfold: "StringFields_loop p =
                  takeWhile field_char ?p3 # StringFields_loop (dropWhile field_char ?p3)"
      using False by (subst StringFields_loop.simps) (simp add: Let_def)
    show ?thesis
    proof (cases "skip_spaces p = []")
      case True
      have nil: "skip_spaces [] = []" "skip_delim [] = []"
        by (simp_all add: skip_spaces_def skip_delim_def)
      have p3: "?p3 = []"
        by (simp only: True nil)
      have "delimited_fields p = []"
        using delimited_fields_skip_spaces [of p] True
        by (simp add: delimited_fields_def maximal_runs_Nil)
      then show ?thesis
        using unfold p3 by (simp add: StringFields_loop.simps)
    next
      case False
      then show ?thesis
        using StringFields_loop_step [of p] unfold ih by auto
    qed
  qed
qed

text \<open>
  C7, as amended. \<^verbatim>\<open>StringFields\<close> works on the text before the first NUL character
  and returns its fields in order. The fields that are not empty are exactly the maximal
  runs of characters that are not whitespace, comma or semicolon; no field holds a
  whitespace character, a comma or a semicolon; the empty string has no fields. A comma
  or semicolon is a delimiter: when the text does not end in whitespace, the fields are
  exactly the \<open>delimited_fields\<close> of the text (split at every comma and semicolon, the
  words of the first piece, and of every later piece its words or one empty field when it
  has no word); in every case the fields are these, or these and one more empty field.
\<close>

theorem StringFields_fields:
  "filter (\<lambda>t. t \<noteq> []) (StringFields str) = maximal_runs (c_str str) \<and>
   (\<forall>t \<in> set (StringFields str). \<forall>c \<in> set t. \<not> is_separator c) \<and>
   StringFields [] = [] \<and>
   (no_trailing_space (c_str str) \<longrightarrow> StringFields str = delimited_fields (c_str str)) \<and>
   (StringFields str = delimited_fields (c_str str) \<or>
    StringFields str = delimited_fields (c_str str) @ [[]])"
proof (intro conjI ballI impI)
  show "filter (\<lambda>t. t \<noteq> []) (StringFields str) = maximal_runs (c_str str)"
    by (simp add: StringFields_def StringFields_loop_runs)
next
  fix t c
  assume "t \<in> set (StringFields str)" and "c \<in> set t"
  then show "\<not> is_separator c"
    using StringFields_loop_chars by (simp add: StringFields_def)
next
  show "StringFields [] = []"
    by (simp add: StringFields_def c_str_def StringFields_loop.simps)
next
  assume "no_trailing_space (c_str str)"
  then show "StringFields str = delimited_fields (c_str str)"
    by (simp add: StringFields_def StringFields_loop_delimited)
next
  show "StringFields str = delimited_fields (c_str str) \<or>
        StringFields str = delimited_fields (c_str str) @ [[]]"
    using StringFields_loop_delimited_or_more [of "c_str str"] by (simp add: StringFields_def)
qed

text \<open>
  C7, witness: the theorem at the line \<open>1.0, 2.0;3.0\<close>, which does not end in
  whitespace and whose fields are \<open>1.0\<close>, \<open>2.0\<close> and \<open>3.0\<close>.
\<close>

theorem StringFields_fields_witness:
  "StringFields ''1.0, 2.0;3.0'' = [''1.0'', ''2.0'', ''3.0''] \<and>
   filter (\<lambda>t. t \<noteq> []) (StringFields ''1.0, 2.0;3.0'') = maximal_runs (c_str ''1.0, 2.0;3.0'') \<and>
   ''2.0'' \<in> set (StringFields ''1.0, 2.0;3.0'') \<and> CHR ''2'' \<in> set ''2.0'' \<and>
   \<not> is_separator (CHR ''2'') \<and>
   StringFields [] = [] \<and>
   no_trailing_space (c_str ''1.0, 2.0;3.0'') \<and>
   StringFields ''1.0, 2.0;3.0'' = delimited_fields (c_str ''1.0, 2.0;3.0'') \<and>
   delimited_fields (c_str ''1.0, 2.0;3.0'') = [''1.0'', ''2.0'', ''3.0'']"
proof -
  have ev: "StringFields ''1.0, 2.0;3.0'' = [''1.0'', ''2.0'', ''3.0'']"
    by code_simp
  have nts: "no_trailing_space (c_str ''1.0, 2.0;3.0'')"
    by code_simp
  have runs: "filter (\<lambda>t. t \<noteq> []) (StringFields ''1.0, 2.0;3.0'') =
              maximal_runs (c_str ''1.0, 2.0;3.0'')"
    and chars: "\<forall>t \<in> set (StringFields ''1.0, 2.0;3.0''). \<forall>c \<in> set t. \<not> is_separator c"
    and none: "StringFields [] = []"
    and delim: "no_trailing_space (c_str ''1.0, 2.0;3.0'') \<longrightarrow>
                StringFields ''1.0, 2.0;3.0'' = delimited_fields (c_str ''1.0, 2.0;3.0'')"
    using StringFields_fields [of "''1.0, 2.0;3.0''"] by blast+
  have eq: "StringFields ''1.0, 2.0;3.0'' = delimited_fields (c_str ''1.0, 2.0;3.0'')"
    using delim nts by blast
  then have val: "delimited_fields (c_str ''1.0, 2.0;3.0'') = [''1.0'', ''2.0'', ''3.0'']"
    using ev by simp
  have mem: "''2.0'' \<in> set (StringFields ''1.0, 2.0;3.0'')"
    by (simp add: ev)
  have chr: "CHR ''2'' \<in> set ''2.0''"
    by simp
  have "\<not> is_separator (CHR ''2'')"
    using chars mem chr by blast
  then show ?thesis
    using ev runs mem chr none nts eq val by blast
qed

text \<open>
  C7, as stated, fails: a comma is skipped at most once before a field, so the second of
  two adjacent commas ends an empty field. The fields of \<open>a,,b\<close> are \<open>a\<close>, the empty
  string and \<open>b\<close>.
\<close>

theorem StringFields_empty_field:
  "StringFields ''a,,b'' = [''a'', [], ''b''] \<and> [] \<in> set (StringFields ''a,,b'')"
proof -
  have "StringFields ''a,,b'' = [''a'', [], ''b'']"
    by code_simp
  then show ?thesis by simp
qed

text \<open>
  The other example of the specification, and a line that ends in a space: the loop runs
  once more on the space and pushes an empty field.
\<close>

lemma StringFields_examples:
  "StringFields ''  a  b'' = [''a'', ''b'']"
  "StringFields ''a '' = [''a'', []]"
  by code_simp+


section \<open>Verification: the writer\<close>

lemma Printf_throw_ok:
  "faults f = [] \<Longrightarrow> Printf_throw f fmt args = Inr (f\<lparr>written := written f @ [(fmt, args)]\<rparr>)"
  by (simp add: Printf_throw_def Printf_def)

lemma Printf_ok:
  "faults f = [] \<Longrightarrow> snd (Printf f fmt args) = f\<lparr>written := written f @ [(fmt, args)]\<rparr>"
  by (simp add: Printf_def)

lemma count_format_emit:
  "count_format fmt (f\<lparr>written := written f @ evs\<rparr>) =
   count_format fmt f + length (filter (\<lambda>e. fst e = fmt) evs)"
  by (simp add: count_format_def)

lemma format_distinct:
  "''        '' \<noteq> shape_open" "point_format \<noteq> shape_open" "'', '' \<noteq> shape_open"
  "crlf \<noteq> shape_open" "''      '' \<noteq> shape_open" "''%zu, '' \<noteq> shape_open"
  "index_end \<noteq> shape_open" "'','' \<noteq> shape_open" "shape_middle \<noteq> shape_open"
  "shape_close \<noteq> shape_open"
  "''        '' \<noteq> point_format" "'', '' \<noteq> point_format" "crlf \<noteq> point_format"
  "''      '' \<noteq> point_format" "''%zu, '' \<noteq> point_format" "index_end \<noteq> point_format"
  "'','' \<noteq> point_format" "shape_middle \<noteq> point_format" "shape_close \<noteq> point_format"
  "shape_open \<noteq> point_format"
  "''        '' \<noteq> index_end" "'', '' \<noteq> index_end" "crlf \<noteq> index_end"
  "''      '' \<noteq> index_end" "''%zu, '' \<noteq> index_end" "'','' \<noteq> index_end"
  "shape_middle \<noteq> index_end" "shape_close \<noteq> index_end" "shape_open \<noteq> index_end"
  "point_format \<noteq> index_end"
  by (simp_all add: shape_open_def shape_middle_def shape_close_def point_format_def
        index_end_def crlf_def)

lemma wrote_refl: "faults f = [] \<Longrightarrow> wrote f f 0 0 0"
  by (simp add: wrote_def)

lemma wrote_trans:
  "wrote f f1 a b c \<Longrightarrow> wrote f1 f2 a' b' c' \<Longrightarrow> wrote f f2 (a + a') (b + b') (c + c')"
  by (simp add: wrote_def)

lemma wrote_emit:
  "faults f = [] \<Longrightarrow>
   wrote f (f\<lparr>written := written f @ [(fmt, args)]\<rparr>)
     (if fmt = shape_open then 1 else 0) (if fmt = point_format then 1 else 0)
     (if fmt = index_end then 1 else 0)"
  by (simp add: wrote_def count_format_emit)

lemma WriteCoordList_loop_ok:
  "faults f = [] \<Longrightarrow>
   \<exists>f'. WriteCoordList_loop f n k pts = Inr f' \<and> wrote f f' 0 (length pts) 0"
proof (induction pts arbitrary: f k)
  case Nil
  then show ?case by (simp add: wrote_refl)
next
  case (Cons p pts)
  let ?e1 = "f\<lparr>written := written f @ [(''        '', [])]\<rparr>"
  let ?e2 = "?e1\<lparr>written := written ?e1 @
               [(''%.15G %.15G %.15G'', [ArgD (pt_x p), ArgD (pt_y p), ArgD (pt_z p)])]\<rparr>"
  let ?e3 = "if k < n - 1 then ?e2\<lparr>written := written ?e2 @ [('', '', [])]\<rparr> else ?e2"
  let ?e4 = "?e3\<lparr>written := written ?e3 @ [(crlf, [])]\<rparr>"
  have f4: "faults ?e4 = []"
    using Cons.prems by simp
  have step: "WriteCoordList_loop f n k (p # pts) = WriteCoordList_loop ?e4 n (k + 1) pts"
    using Cons.prems by (simp add: then_do_def Printf_throw_ok)
  have w: "wrote f ?e4 0 1 0"
    using Cons.prems
    by (simp add: wrote_def count_format_emit format_distinct point_format_def [symmetric])
  obtain f' where "WriteCoordList_loop ?e4 n (k + 1) pts = Inr f'"
    and "wrote ?e4 f' 0 (length pts) 0"
    using Cons.IH [OF f4] by blast
  then show ?case
    using step wrote_trans [OF w] by fastforce
qed

lemma WriteCoordIndexes_inner_ok:
  "faults f = [] \<Longrightarrow>
   \<exists>f'. WriteCoordIndexes_inner f trndx is = Inr f' \<and> wrote f f' 0 0 0"
proof (induction "is" arbitrary: f)
  case Nil
  then show ?case by (simp add: wrote_refl)
next
  case (Cons i "is")
  let ?e = "f\<lparr>written := written f @ [(''%zu, '', [ArgZu (trndx * 3 + i)])]\<rparr>"
  have fe: "faults ?e = []"
    using Cons.prems by simp
  have step: "WriteCoordIndexes_inner f trndx (i # is) = WriteCoordIndexes_inner ?e trndx is"
    using Cons.prems by (simp add: then_do_def Printf_throw_ok)
  have w: "wrote f ?e 0 0 0"
    using Cons.prems by (simp add: wrote_def count_format_emit format_distinct)
  obtain f' where "WriteCoordIndexes_inner ?e trndx is = Inr f'" and "wrote ?e f' 0 0 0"
    using Cons.IH [OF fe] by blast
  then show ?case
    using step wrote_trans [OF w] by fastforce
qed

lemma WriteCoordIndexes_loop_ok:
  "faults f = [] \<Longrightarrow>
   \<exists>f'. WriteCoordIndexes_loop f n ts = Inr f' \<and> wrote f f' 0 0 (length ts)"
proof (induction ts arbitrary: f)
  case Nil
  then show ?case by (simp add: wrote_refl)
next
  case (Cons t ts)
  let ?e1 = "f\<lparr>written := written f @ [(''      '', [])]\<rparr>"
  have f1: "faults ?e1 = []" and w1: "wrote f ?e1 0 0 0"
    using Cons.prems by (simp_all add: wrote_def count_format_emit format_distinct)
  obtain e2 where i2: "WriteCoordIndexes_inner ?e1 t [0, 1, 2] = Inr e2" and w2: "wrote ?e1 e2 0 0 0"
    using WriteCoordIndexes_inner_ok [OF f1] by blast
  then have f2: "faults e2 = []"
    by (simp add: wrote_def)
  let ?e3 = "e2\<lparr>written := written e2 @ [(''-1'', [])]\<rparr>"
  let ?e4 = "if t < n - 1 then ?e3\<lparr>written := written ?e3 @ [('','', [])]\<rparr> else ?e3"
  let ?e5 = "?e4\<lparr>written := written ?e4 @ [(crlf, [])]\<rparr>"
  have f5: "faults ?e5 = []"
    using f2 by simp
  have w5: "wrote e2 ?e5 0 0 1"
    using f2 by (simp add: wrote_def count_format_emit format_distinct index_end_def [symmetric])
  have step: "WriteCoordIndexes_loop f n (t # ts) = WriteCoordIndexes_loop ?e5 n ts"
    using Cons.prems i2 f2 by (simp add: then_do_def Printf_throw_ok Printf_ok)
  obtain f' where r: "WriteCoordIndexes_loop ?e5 n ts = Inr f'" and w: "wrote ?e5 f' 0 0 (length ts)"
    using Cons.IH [OF f5] by blast
  have "wrote f f' 0 0 (1 + length ts)"
    using wrote_trans [OF wrote_trans [OF wrote_trans [OF w1 w2] w5] w] by simp
  then show ?case
    using step r by simp
qed

lemma WriteFacetsToWrl_ok:
  assumes "faults f = []" and "length pts mod 3 = 0" and "pts \<noteq> []"
  shows "\<exists>f'. WriteFacetsToWrl f pts = Inr f' \<and> wrote f f' 1 (length pts) (length pts div 3)"
proof -
  have n: "\<not> length pts div 3 < 1"
    using assms(2,3) by (cases pts) auto
  let ?e1 = "f\<lparr>written := written f @ [(shape_open, [])]\<rparr>"
  have f1: "faults ?e1 = []" and w1: "wrote f ?e1 1 0 0"
    using assms(1) by (simp_all add: wrote_def count_format_emit format_distinct)
  obtain e2 where r2: "WriteCoordListToWrl ?e1 pts = Inr e2" and w2: "wrote ?e1 e2 0 (length pts) 0"
    using WriteCoordList_loop_ok [OF f1] unfolding WriteCoordListToWrl_def by blast
  then have f2: "faults e2 = []"
    by (simp add: wrote_def)
  let ?e3 = "e2\<lparr>written := written e2 @ [(shape_middle, [])]\<rparr>"
  have f3: "faults ?e3 = []" and w3: "wrote e2 ?e3 0 0 0"
    using f2 by (simp_all add: wrote_def count_format_emit format_distinct)
  obtain e4 where r4: "WriteCoordIndexesToWrl ?e3 (length pts div 3) = Inr e4"
    and w4: "wrote ?e3 e4 0 0 (length pts div 3)"
    using WriteCoordIndexes_loop_ok [OF f3, of "length pts div 3" "[0..<length pts div 3]"]
    unfolding WriteCoordIndexesToWrl_def by auto
  then have f4: "faults e4 = []"
    by (simp add: wrote_def)
  let ?e5 = "e4\<lparr>written := written e4 @ [(shape_close, [])]\<rparr>"
  have w5: "wrote e4 ?e5 0 0 0"
    using f4 by (simp add: wrote_def count_format_emit format_distinct)
  have "WriteFacetsToWrl f pts = Inr ?e5"
    using assms(1,2) n r2 f2 r4 f4
    by (simp add: WriteFacetsToWrl_def Let_def then_do_def Printf_throw_ok)
  moreover have "wrote f ?e5 1 (length pts) (length pts div 3)"
    using wrote_trans [OF wrote_trans [OF wrote_trans [OF wrote_trans [OF w1 w2] w3] w4] w5]
    by simp
  ultimately show ?thesis by blast
qed


subsection \<open>One call and a sequence of calls\<close>

lemma WriteFacetToWrl_below:
  "length (m_triangles w) + length coords < 3000 \<Longrightarrow>
   WriteFacetToWrl w coords = Inr (w\<lparr>m_triangles := m_triangles w @ coords\<rparr>)"
  by (simp add: WriteFacetToWrl_def maxPointsPerFaceSet_def Let_def)

lemma WriteFacetToWrl_flush:
  assumes "faults (m_file w) = []" and "3000 \<le> length (m_triangles w) + length coords"
    and "(length (m_triangles w) + length coords) mod 3 = 0"
  shows "\<exists>w'. WriteFacetToWrl w coords = Inr w' \<and> m_triangles w' = [] \<and>
           wrote (m_file w) (m_file w') 1 (length (m_triangles w) + length coords)
             ((length (m_triangles w) + length coords) div 3)"
proof -
  let ?pts = "m_triangles w @ coords"
  have "?pts \<noteq> []"
    using assms(2) by auto
  then obtain f' where "WriteFacetsToWrl (m_file w) ?pts = Inr f'"
    and "wrote (m_file w) f' 1 (length ?pts) (length ?pts div 3)"
    using WriteFacetsToWrl_ok [OF assms(1), of ?pts] assms(3) by auto
  then show ?thesis
    using assms(2) by (simp add: WriteFacetToWrl_def maxPointsPerFaceSet_def Let_def)
qed

lemma WriteFacetToWrl_invariant:
  assumes "WriteFacetToWrl w coords = Inr w'" and "length coords = 3"
    and "length (m_triangles w) mod 3 = 0"
  shows "length (m_triangles w') mod 3 = 0 \<and> length (m_triangles w') < maxPointsPerFaceSet"
proof (cases "length (m_triangles w) + length coords < 3000")
  case True
  then have "w' = w\<lparr>m_triangles := m_triangles w @ coords\<rparr>"
    using assms(1) by (simp add: WriteFacetToWrl_below)
  then show ?thesis
    using True assms(2,3) by (simp add: maxPointsPerFaceSet_def)
next
  case False
  then have "m_triangles w' = []"
    using assms(1)
    by (auto simp: WriteFacetToWrl_def maxPointsPerFaceSet_def Let_def split: sum.splits)
  then show ?thesis
    by (simp add: maxPointsPerFaceSet_def)
qed

lemma WriteFacetToWrl_calls_invariant:
  "WriteFacetToWrl_calls w calls = Inr w' \<Longrightarrow> \<forall>coords \<in> set calls. length coords = 3 \<Longrightarrow>
   length (m_triangles w) mod 3 = 0 \<Longrightarrow> length (m_triangles w) < maxPointsPerFaceSet \<Longrightarrow>
   length (m_triangles w') mod 3 = 0 \<and> length (m_triangles w') < maxPointsPerFaceSet"
proof (induction calls arbitrary: w)
  case Nil
  then show ?case by simp
next
  case (Cons coords calls)
  from Cons.prems(1) obtain w1 where w1: "WriteFacetToWrl w coords = Inr w1"
    and rest: "WriteFacetToWrl_calls w1 calls = Inr w'"
    by (auto split: sum.splits)
  have "length coords = 3"
    using Cons.prems(2) by simp
  then have "length (m_triangles w1) mod 3 = 0 \<and> length (m_triangles w1) < maxPointsPerFaceSet"
    using WriteFacetToWrl_invariant [OF w1] Cons.prems(3) by simp
  then show ?case
    using Cons.IH [OF rest] Cons.prems(2) by simp
qed

lemma WriteFacetToWrl_calls_append:
  "WriteFacetToWrl_calls w (calls @ more_calls) =
   (case WriteFacetToWrl_calls w calls of
      Inl e \<Rightarrow> Inl e
    | Inr w1 \<Rightarrow> WriteFacetToWrl_calls w1 more_calls)"
  by (induction calls arbitrary: w) (auto split: sum.splits)

lemma WriteFacetToWrl_calls_below:
  "length (m_triangles w) + length (concat calls) < 3000 \<Longrightarrow>
   WriteFacetToWrl_calls w calls = Inr (w\<lparr>m_triangles := m_triangles w @ concat calls\<rparr>)"
proof (induction calls arbitrary: w)
  case Nil
  then show ?case by simp
next
  case (Cons coords calls)
  let ?w1 = "w\<lparr>m_triangles := m_triangles w @ coords\<rparr>"
  have "WriteFacetToWrl w coords = Inr ?w1"
    using Cons.prems by (intro WriteFacetToWrl_below) simp
  moreover have "WriteFacetToWrl_calls ?w1 calls =
                 Inr (?w1\<lparr>m_triangles := m_triangles ?w1 @ concat calls\<rparr>)"
    using Cons.prems by (intro Cons.IH) simp
  ultimately show ?case by simp
qed

lemma WriteFacetToWrl_calls_empty:
  "concat calls = [] \<Longrightarrow> length (m_triangles w) < 3000 \<Longrightarrow> WriteFacetToWrl_calls w calls = Inr w"
  by (induction calls) (simp_all add: WriteFacetToWrl_below)

lemma WriteFacetToWrl_calls_fill:
  "faults (m_file w) = [] \<Longrightarrow> length (m_triangles w) < 3000 \<Longrightarrow>
   length (m_triangles w) + length (concat calls) = 3000 \<Longrightarrow>
   \<exists>w'. WriteFacetToWrl_calls w calls = Inr w' \<and> m_triangles w' = [] \<and>
        wrote (m_file w) (m_file w') 1 3000 1000"
proof (induction calls arbitrary: w)
  case Nil
  then show ?case by simp
next
  case (Cons coords calls)
  show ?case
  proof (cases "length (m_triangles w) + length coords < 3000")
    case True
    let ?w1 = "w\<lparr>m_triangles := m_triangles w @ coords\<rparr>"
    have step: "WriteFacetToWrl w coords = Inr ?w1"
      using True by (rule WriteFacetToWrl_below)
    have "\<exists>w'. WriteFacetToWrl_calls ?w1 calls = Inr w' \<and> m_triangles w' = [] \<and>
               wrote (m_file ?w1) (m_file w') 1 3000 1000"
      using Cons.prems True by (intro Cons.IH) simp_all
    then show ?thesis
      using step by simp
  next
    case False
    have total: "length (m_triangles w) + length coords + length (concat calls) = 3000"
      using Cons.prems(3) by simp
    have full: "length (m_triangles w) + length coords = 3000"
      using total False by linarith
    have "length (concat calls) = 0"
      using total full by linarith
    then have rest: "concat calls = []"
      by (simp only: length_0_conv)
    obtain w1 where step: "WriteFacetToWrl w coords = Inr w1" and empty: "m_triangles w1 = []"
      and w: "wrote (m_file w) (m_file w1) 1 3000 1000"
      using WriteFacetToWrl_flush [OF Cons.prems(1), of coords] full by auto
    have "WriteFacetToWrl_calls w1 calls = Inr w1"
      using rest empty by (simp add: WriteFacetToWrl_calls_empty)
    then show ?thesis
      using step empty w by simp
  qed
qed

lemma WriteEndOfWrl_keeps:
  "WriteEndOfWrl fp w emin emax = Inr w' \<Longrightarrow> m_triangles w' = m_triangles w"
  by (auto simp: WriteEndOfWrl_def split: sum.splits if_splits)


subsection \<open>The claims about the pending triangles\<close>

text \<open>
  C10. When every call of \<^verbatim>\<open>WriteFacetToWrl\<close> on a new writer passes the three points of
  one triangle, then after every call that returns the number of pending points is a
  multiple of 3 and less than 3000.
\<close>

theorem WriteFacetToWrl_pending_invariant:
  assumes "\<forall>coords \<in> set calls. length coords = 3"
    and "WriteFacetToWrl_calls \<lparr>m_file = outFile, m_triangles = []\<rparr> calls = Inr w'"
  shows "length (m_triangles w') mod 3 = 0 \<and> length (m_triangles w') < maxPointsPerFaceSet"
  using WriteFacetToWrl_calls_invariant [OF assms(2) assms(1)]
  by (simp add: maxPointsPerFaceSet_def)

text \<open>C10, witness: one call with one triangle on a new writer.\<close>

theorem WriteFacetToWrl_pending_invariant_witness:
  "length [\<lparr>pt_x = 0::int, pt_y = 0, pt_z = 0\<rparr>, \<lparr>pt_x = 1, pt_y = 0, pt_z = 0\<rparr>,
           \<lparr>pt_x = 0, pt_y = 1, pt_z = 0\<rparr>] = 3 \<and>
   WriteFacetToWrl_calls \<lparr>m_file = \<lparr>written = [], faults = []\<rparr>, m_triangles = []\<rparr>
     [[\<lparr>pt_x = 0::int, pt_y = 0, pt_z = 0\<rparr>, \<lparr>pt_x = 1, pt_y = 0, pt_z = 0\<rparr>,
       \<lparr>pt_x = 0, pt_y = 1, pt_z = 0\<rparr>]] =
     Inr \<lparr>m_file = \<lparr>written = [], faults = []\<rparr>,
          m_triangles = [\<lparr>pt_x = 0::int, pt_y = 0, pt_z = 0\<rparr>, \<lparr>pt_x = 1, pt_y = 0, pt_z = 0\<rparr>,
                         \<lparr>pt_x = 0, pt_y = 1, pt_z = 0\<rparr>]\<rparr> \<and>
   length (m_triangles \<lparr>m_file = \<lparr>written = [], faults = []\<rparr>,
          m_triangles = [\<lparr>pt_x = 0::int, pt_y = 0, pt_z = 0\<rparr>, \<lparr>pt_x = 1, pt_y = 0, pt_z = 0\<rparr>,
                         \<lparr>pt_x = 0, pt_y = 1, pt_z = 0\<rparr>]\<rparr>) mod 3 = 0 \<and>
   length (m_triangles \<lparr>m_file = \<lparr>written = [], faults = []\<rparr>,
          m_triangles = [\<lparr>pt_x = 0::int, pt_y = 0, pt_z = 0\<rparr>, \<lparr>pt_x = 1, pt_y = 0, pt_z = 0\<rparr>,
                         \<lparr>pt_x = 0, pt_y = 1, pt_z = 0\<rparr>]\<rparr>) < maxPointsPerFaceSet"
proof -
  let ?tri = "[\<lparr>pt_x = 0::int, pt_y = 0, pt_z = 0\<rparr>, \<lparr>pt_x = 1, pt_y = 0, pt_z = 0\<rparr>,
               \<lparr>pt_x = 0, pt_y = 1, pt_z = 0\<rparr>]"
  let ?out = "\<lparr>written = [], faults = []\<rparr> :: int OutFile"
  have all3: "\<forall>coords \<in> set [?tri]. length coords = 3"
    by simp
  have run: "WriteFacetToWrl_calls \<lparr>m_file = ?out, m_triangles = []\<rparr> [?tri] =
             Inr \<lparr>m_file = ?out, m_triangles = ?tri\<rparr>"
    by (simp add: WriteFacetToWrl_def maxPointsPerFaceSet_def Let_def)
  show ?thesis
    using WriteFacetToWrl_pending_invariant [OF all3 run] run by simp
qed

text \<open>
  C5, as amended. On a new writer whose writes do not fail, calls that pass 3000 points in
  all (1000 triangles, or any other split of the points into calls) end with exactly one
  geometry node written, of 3000 points, and no pending point; when these calls are
  followed by one call with one point, so that 3001 points are passed and the 3000th
  ends a call, that one point is left pending, with still one geometry node of 3000
  points written.
\<close>

theorem WriteFacetToWrl_batching:
  assumes "faults outFile = []" and "length (concat calls) = 3000"
  shows "(\<exists>w'. WriteFacetToWrl_calls \<lparr>m_file = outFile, m_triangles = []\<rparr> calls = Inr w' \<and>
            m_triangles w' = [] \<and>
            count_format shape_open (m_file w') = count_format shape_open outFile + 1 \<and>
            count_format point_format (m_file w') = count_format point_format outFile + 3000) \<and>
         (\<exists>w'. WriteFacetToWrl_calls \<lparr>m_file = outFile, m_triangles = []\<rparr> (calls @ [[p]]) =
              Inr w' \<and>
            m_triangles w' = [p] \<and>
            count_format shape_open (m_file w') = count_format shape_open outFile + 1 \<and>
            count_format point_format (m_file w') = count_format point_format outFile + 3000)"
proof -
  let ?w = "\<lparr>m_file = outFile, m_triangles = []\<rparr>"
  obtain w' where run: "WriteFacetToWrl_calls ?w calls = Inr w'" and empty: "m_triangles w' = []"
    and w: "wrote outFile (m_file w') 1 3000 1000"
    using WriteFacetToWrl_calls_fill [of ?w calls] assms by auto
  have one: "WriteFacetToWrl_calls ?w (calls @ [[p]]) = Inr (w'\<lparr>m_triangles := [p]\<rparr>)"
    using run empty by (simp add: WriteFacetToWrl_calls_append WriteFacetToWrl_below)
  show ?thesis
    using run empty w one by (simp add: wrote_def)
qed

text \<open>C5, witness: 1000 calls with one triangle each, and then one call with one point.\<close>

theorem WriteFacetToWrl_batching_witness:
  "faults (\<lparr>written = [], faults = []\<rparr> :: int OutFile) = [] \<and>
   length (concat (replicate 1000 (replicate 3 \<lparr>pt_x = 0::int, pt_y = 0, pt_z = 0\<rparr>))) = 3000 \<and>
   (\<exists>w'. WriteFacetToWrl_calls \<lparr>m_file = \<lparr>written = [], faults = []\<rparr>, m_triangles = []\<rparr>
            (replicate 1000 (replicate 3 \<lparr>pt_x = 0::int, pt_y = 0, pt_z = 0\<rparr>)) = Inr w' \<and>
          m_triangles w' = [] \<and>
          count_format shape_open (m_file w') = 1 \<and>
          count_format point_format (m_file w') = 3000) \<and>
   (\<exists>w'. WriteFacetToWrl_calls \<lparr>m_file = \<lparr>written = [], faults = []\<rparr>, m_triangles = []\<rparr>
            (replicate 1000 (replicate 3 \<lparr>pt_x = 0::int, pt_y = 0, pt_z = 0\<rparr>) @
             [[\<lparr>pt_x = 1, pt_y = 1, pt_z = 1\<rparr>]]) = Inr w' \<and>
          m_triangles w' = [\<lparr>pt_x = 1, pt_y = 1, pt_z = 1\<rparr>] \<and>
          count_format shape_open (m_file w') = 1 \<and>
          count_format point_format (m_file w') = 3000)"
proof -
  let ?out = "\<lparr>written = [], faults = []\<rparr> :: int OutFile"
  let ?calls = "replicate 1000 (replicate 3 \<lparr>pt_x = 0::int, pt_y = 0, pt_z = 0\<rparr>)"
  have nofault: "faults ?out = []"
    by simp
  have len: "length (concat ?calls) = 3000"
    by (simp add: length_concat sum_list_replicate)
  have zero: "count_format shape_open ?out = 0" "count_format point_format ?out = 0"
    by (simp_all add: count_format_def)
  show ?thesis
    using WriteFacetToWrl_batching [OF nofault len, of "\<lparr>pt_x = 1, pt_y = 1, pt_z = 1\<rparr>"]
      nofault len zero
    by simp
qed

text \<open>
  C5, as stated, fails for 3001 points of which the 3000th does not end a call. The flush
  takes the whole buffer: after 999 triangles, a call with four points brings 3001 points
  to \<^verbatim>\<open>WriteFacetsToWrl\<close>, where the assertion on the number of points fails; no
  geometry node of 3000 points is written and no point is left pending.
\<close>

theorem WriteFacetToWrl_3001_straddling:
  "length (concat (replicate 999 (replicate 3 \<lparr>pt_x = 0::int, pt_y = 0, pt_z = 0\<rparr>) @
                   [replicate 4 \<lparr>pt_x = 0, pt_y = 0, pt_z = 0\<rparr>])) = 3001 \<and>
   WriteFacetToWrl_calls \<lparr>m_file = new_file, m_triangles = []\<rparr>
     (replicate 999 (replicate 3 \<lparr>pt_x = 0::int, pt_y = 0, pt_z = 0\<rparr>) @
      [replicate 4 \<lparr>pt_x = 0, pt_y = 0, pt_z = 0\<rparr>]) = Inl AssertionFailed"
proof -
  let ?p = "\<lparr>pt_x = 0::int, pt_y = 0, pt_z = 0\<rparr>"
  let ?w = "\<lparr>m_file = new_file, m_triangles = []\<rparr> :: int VrmlWriter"
  let ?tris = "replicate 999 (replicate 3 ?p)"
  have len: "length (concat ?tris) = 2997"
    by (simp add: length_concat sum_list_replicate)
  then have first: "WriteFacetToWrl_calls ?w ?tris = Inr (?w\<lparr>m_triangles := concat ?tris\<rparr>)"
    using WriteFacetToWrl_calls_below [of ?w ?tris] by simp
  have last: "WriteFacetToWrl (?w\<lparr>m_triangles := concat ?tris\<rparr>) (replicate 4 ?p) =
              Inl AssertionFailed"
    using len
    by (simp add: WriteFacetToWrl_def WriteFacetsToWrl_def maxPointsPerFaceSet_def Let_def)
  have "WriteFacetToWrl_calls ?w (?tris @ [replicate 4 ?p]) = Inl AssertionFailed"
    by (simp only: WriteFacetToWrl_calls_append first last sum.case WriteFacetToWrl_calls.simps)
  moreover have "length (concat (?tris @ [replicate 4 ?p])) = 3001"
    using len by simp
  ultimately show ?thesis by blast
qed

text \<open>The same holds of one call that passes 3001 points to a new writer.\<close>

lemma WriteFacetToWrl_3001_at_once:
  "WriteFacetToWrl \<lparr>m_file = outFile, m_triangles = []\<rparr> (replicate 3001 p) =
   Inl AssertionFailed"
  by (simp add: WriteFacetToWrl_def WriteFacetsToWrl_def maxPointsPerFaceSet_def Let_def)

text \<open>
  C4 does not hold of \<^verbatim>\<open>WriteEndOfWrl\<close>: it writes the pending triangles as a geometry
  node and leaves them in \<^verbatim>\<open>m_triangles\<close>. (\<^verbatim>\<open>WriteFacetToWrl\<close> clears the buffer
  after its flush, see \<open>WriteFacetToWrl_flush\<close>.)
\<close>

theorem WriteEndOfWrl_batch_not_cleared:
  "\<exists>w'. WriteEndOfWrl fp \<lparr>m_file = \<lparr>written = [], faults = []\<rparr>, m_triangles = [p1, p2, p3]\<rparr>
           emin emax = Inr w' \<and>
         count_format shape_open (m_file w') = 1 \<and>
         m_triangles w' = [p1, p2, p3]"
proof -
  let ?out = "\<lparr>written = [], faults = []\<rparr> :: 'a OutFile"
  let ?w = "\<lparr>m_file = ?out, m_triangles = [p1, p2, p3]\<rparr>"
  have "\<exists>f. WriteFacetsToWrl ?out [p1, p2, p3] = Inr f \<and>
            wrote ?out f 1 (length [p1, p2, p3]) (length [p1, p2, p3] div 3)"
    by (rule WriteFacetsToWrl_ok) simp_all
  then obtain f where flush: "WriteFacetsToWrl ?out [p1, p2, p3] = Inr f"
    and w: "wrote ?out f 1 (length [p1, p2, p3]) (length [p1, p2, p3] div 3)"
    by blast
  then have nofault: "faults f = []"
    by (simp add: wrote_def)
  have "\<exists>f'. WriteEndOfWrl fp ?w emin emax = Inr (?w\<lparr>m_file := f'\<rparr>) \<and> wrote f f' 0 0 0"
    using flush nofault
    by (simp add: WriteEndOfWrl_def then_do_def Printf_throw_ok wrote_def count_format_emit
          shape_open_def point_format_def index_end_def crlf_def)
  then obtain f' where "WriteEndOfWrl fp ?w emin emax = Inr (?w\<lparr>m_file := f'\<rparr>)"
    and "wrote f f' 0 0 0"
    by blast
  then show ?thesis
    using w by (auto simp: wrote_def count_format_def)
qed

text \<open>C4, the same run with integer coordinates.\<close>

theorem WriteEndOfWrl_batch_not_cleared_witness:
  "\<exists>w'. WriteEndOfWrl integer_fp
           \<lparr>m_file = \<lparr>written = [], faults = []\<rparr>,
            m_triangles = [\<lparr>pt_x = 0, pt_y = 0, pt_z = 0\<rparr>, \<lparr>pt_x = 1, pt_y = 0, pt_z = 0\<rparr>,
                           \<lparr>pt_x = 0, pt_y = 1, pt_z = 0\<rparr>]\<rparr>
           \<lparr>pt_x = 0, pt_y = 0, pt_z = 0\<rparr> \<lparr>pt_x = 1, pt_y = 1, pt_z = 0\<rparr> = Inr w' \<and>
         count_format shape_open (m_file w') = 1 \<and>
         m_triangles w' = [\<lparr>pt_x = 0, pt_y = 0, pt_z = 0\<rparr>, \<lparr>pt_x = 1, pt_y = 0, pt_z = 0\<rparr>,
                           \<lparr>pt_x = 0, pt_y = 1, pt_z = 0\<rparr>]"
  using WriteEndOfWrl_batch_not_cleared [of integer_fp] by blast


section \<open>Verification: the reader\<close>

lemma Read_length:
  "length (fst (Read f n)) = n \<longleftrightarrow> \<not> length (data f) - pos f < n"
  by (auto simp: Read_def Let_def min_def)

text \<open>
  C9. When facets are left to read (\<^verbatim>\<open>m_curFacet < m_numFacets\<close>, otherwise the function
  returns false and reads nothing), \<^verbatim>\<open>ReadFacetFromBinaryStl\<close> throws a format error if
  and only if fewer than 50 bytes are left in the file or the attribute field of the
  record is not zero. The floats are not looked at: in every other case the facet is
  returned, its three points being the nine coordinate floats converted to
  \<^verbatim>\<open>double\<close>, whatever their bits are.
\<close>

theorem ReadFacetFromBinaryStl_errors:
  assumes "m_curFacet r < m_numFacets r"
    and "rec = take 50 (drop (pos (m_infile r)) (data (m_infile r)))"
  shows "((\<exists>msg. ReadFacetFromBinaryStl fp r coords = Inl (FormatError msg)) \<longleftrightarrow>
           (length (data (m_infile r)) - pos (m_infile r) < 50 \<or> m_attributeSize rec \<noteq> 0)) \<and>
         (length rec = 50 \<and> m_attributeSize rec = 0 \<longrightarrow>
           ReadFacetFromBinaryStl fp r coords =
             Inr (True,
                  coords @
                  [\<lparr>pt_x = fp_of_float fp (m_coorddata rec 0),
                    pt_y = fp_of_float fp (m_coorddata rec 1),
                    pt_z = fp_of_float fp (m_coorddata rec 2)\<rparr>,
                   \<lparr>pt_x = fp_of_float fp (m_coorddata rec 3),
                    pt_y = fp_of_float fp (m_coorddata rec 4),
                    pt_z = fp_of_float fp (m_coorddata rec 5)\<rparr>,
                   \<lparr>pt_x = fp_of_float fp (m_coorddata rec 6),
                    pt_y = fp_of_float fp (m_coorddata rec 7),
                    pt_z = fp_of_float fp (m_coorddata rec 8)\<rparr>],
                  r\<lparr>m_infile := (m_infile r)\<lparr>pos := pos (m_infile r) + 50\<rparr>,
                    m_curFacet := m_curFacet r + 1\<rparr>))"
proof -
  have notdone: "\<not> m_numFacets r \<le> m_curFacet r"
    using assms(1) by simp
  have rd: "Read (m_infile r) 50 =
            (rec, (m_infile r)\<lparr>pos := pos (m_infile r) + length rec\<rparr>)"
    by (simp add: Read_def Let_def assms(2))
  have len: "length rec = 50 \<longleftrightarrow> \<not> length (data (m_infile r)) - pos (m_infile r) < 50"
    by (auto simp: assms(2) min_def)
  show ?thesis
  proof (cases "length rec = 50")
    case True
    then show ?thesis
      using notdone rd len
      by (simp add: ReadFacetFromBinaryStl_def sizeof_BinaryStlRecord_def
            numeral_2_eq_2 [symmetric])
  next
    case False
    then show ?thesis
      using notdone rd len
      by (simp add: ReadFacetFromBinaryStl_def sizeof_BinaryStlRecord_def)
  qed
qed

text \<open>
  C9, witness: a record whose nine coordinates are NaN is read as a facet (the integers of
  the result stand for the bits \<open>0x7FC00000\<close>).
\<close>

theorem ReadFacetFromBinaryStl_errors_witness:
  "m_curFacet \<lparr>m_infile = \<lparr>data = nan_record, pos = 0\<rparr>, m_isBinaryStl = True,
                 m_numFacets = 1, m_curFacet = 0\<rparr> <
   m_numFacets \<lparr>m_infile = \<lparr>data = nan_record, pos = 0\<rparr>, m_isBinaryStl = True,
                 m_numFacets = 1, m_curFacet = 0\<rparr> \<and>
   nan_record = take 50 (drop 0 nan_record) \<and>
   length nan_record = 50 \<and> m_attributeSize nan_record = 0 \<and>
   m_coorddata nan_record 0 = 0x7FC00000 \<and>
   ReadFacetFromBinaryStl integer_fp
     \<lparr>m_infile = \<lparr>data = nan_record, pos = 0\<rparr>, m_isBinaryStl = True,
      m_numFacets = 1, m_curFacet = 0\<rparr> [] =
   Inr (True,
        [\<lparr>pt_x = 0x7FC00000, pt_y = 0x7FC00000, pt_z = 0x7FC00000\<rparr>,
         \<lparr>pt_x = 0x7FC00000, pt_y = 0x7FC00000, pt_z = 0x7FC00000\<rparr>,
         \<lparr>pt_x = 0x7FC00000, pt_y = 0x7FC00000, pt_z = 0x7FC00000\<rparr>],
        \<lparr>m_infile = \<lparr>data = nan_record, pos = 50\<rparr>, m_isBinaryStl = True,
         m_numFacets = 1, m_curFacet = 1\<rparr>)"
proof -
  let ?r = "\<lparr>m_infile = \<lparr>data = nan_record, pos = 0\<rparr>, m_isBinaryStl = True,
            m_numFacets = 1, m_curFacet = 0\<rparr>"
  have lt: "m_curFacet ?r < m_numFacets ?r"
    by simp
  have len: "length nan_record = 50"
    by code_simp
  have rec: "nan_record = take 50 (drop (pos (m_infile ?r)) (data (m_infile ?r)))"
    using len by simp
  have attr: "m_attributeSize nan_record = 0"
    by code_simp
  have coord: "m_coorddata nan_record 0 = 0x7FC00000" "m_coorddata nan_record 1 = 0x7FC00000"
    "m_coorddata nan_record 2 = 0x7FC00000" "m_coorddata nan_record 3 = 0x7FC00000"
    "m_coorddata nan_record 4 = 0x7FC00000" "m_coorddata nan_record 5 = 0x7FC00000"
    "m_coorddata nan_record 6 = 0x7FC00000" "m_coorddata nan_record 7 = 0x7FC00000"
    "m_coorddata nan_record 8 = 0x7FC00000"
    by code_simp+
  show ?thesis
    using ReadFacetFromBinaryStl_errors [OF lt rec, of integer_fp "[]"] len attr coord
    by (simp add: integer_fp_def)
qed

text \<open>
  C6. When \<^verbatim>\<open>ReadVertexFromAsciiStl\<close> reads a line of at least four fields and one of the
  three coordinate fields is bad (its value is 0 and its first character is not \<open>0\<close>, or
  its value is NaN or infinite), a format error is thrown: the one for invalid coordinate
  values when the first field is \<open>vertex\<close>. With \<^verbatim>\<open>atof("abc") == 0\<close>, as the C library
  has it, the line \<open>vertex 1.0 abc 3.0\<close> throws that error.
\<close>

theorem ReadVertexFromAsciiStl_rejects:
  "(ReadLine f True = Some (True, text, f1) \<and> 4 \<le> length (StringFields text) \<and>
    StringFields text ! 0 = ''vertex'' \<and>
    i \<in> {1, 2, 3} \<and> bad_coordinate fp (StringFields text ! i) \<longrightarrow>
      ReadVertexFromAsciiStl fp f = Some (Inl (FormatError invalid_coordinates))) \<and>
   (ReadLine f True = Some (True, text, f1) \<and> 4 \<le> length (StringFields text) \<and>
    i \<in> {1, 2, 3} \<and> bad_coordinate fp (StringFields text ! i) \<longrightarrow>
      (\<exists>msg. ReadVertexFromAsciiStl fp f = Some (Inl (FormatError msg)))) \<and>
   (fp_is_zero fp (fp_atof fp ''abc'') \<longrightarrow>
      ReadVertexFromAsciiStl fp \<lparr>data = ''vertex 1.0 abc 3.0'' @ [CHR 0x0A], pos = 0\<rparr> =
        Some (Inl (FormatError invalid_coordinates)))"
proof (intro conjI impI)
  assume a: "ReadLine f True = Some (True, text, f1) \<and> 4 \<le> length (StringFields text) \<and>
    StringFields text ! 0 = ''vertex'' \<and>
    i \<in> {1, 2, 3} \<and> bad_coordinate fp (StringFields text ! i)"
  then have "bad_coordinate fp (StringFields text ! 1) \<or> bad_coordinate fp (StringFields text ! 2) \<or>
             bad_coordinate fp (StringFields text ! 3)"
    by auto
  then show "ReadVertexFromAsciiStl fp f = Some (Inl (FormatError invalid_coordinates))"
    using a by (auto simp: ReadVertexFromAsciiStl_def Let_def bad_coordinate_def
                  invalid_coordinates_def)
next
  assume a: "ReadLine f True = Some (True, text, f1) \<and> 4 \<le> length (StringFields text) \<and>
    i \<in> {1, 2, 3} \<and> bad_coordinate fp (StringFields text ! i)"
  then have "bad_coordinate fp (StringFields text ! 1) \<or> bad_coordinate fp (StringFields text ! 2) \<or>
             bad_coordinate fp (StringFields text ! 3)"
    by auto
  then show "\<exists>msg. ReadVertexFromAsciiStl fp f = Some (Inl (FormatError msg))"
    using a by (auto simp: ReadVertexFromAsciiStl_def Let_def bad_coordinate_def)
next
  assume z: "fp_is_zero fp (fp_atof fp ''abc'')"
  have line: "ReadLine \<lparr>data = ''vertex 1.0 abc 3.0'' @ [CHR 0x0A], pos = 0\<rparr> True =
              Some (True, ''vertex 1.0 abc 3.0'',
                    \<lparr>data = ''vertex 1.0 abc 3.0'' @ [CHR 0x0A], pos = 19\<rparr>)"
    by code_simp
  have flds: "StringFields ''vertex 1.0 abc 3.0'' = [''vertex'', ''1.0'', ''abc'', ''3.0'']"
    by code_simp
  show "ReadVertexFromAsciiStl fp \<lparr>data = ''vertex 1.0 abc 3.0'' @ [CHR 0x0A], pos = 0\<rparr> =
        Some (Inl (FormatError invalid_coordinates))"
    using z by (simp add: ReadVertexFromAsciiStl_def line [simplified] flds first_char_def
                  invalid_coordinates_def)
qed

lemma integer_atof_abc: "fp_atof integer_fp ''abc'' = 0"
  by (simp add: integer_fp_def is_digit_def)

text \<open>C6, witness: the line \<open>vertex 1.0 abc 3.0\<close>, its third field, integer values.\<close>

theorem ReadVertexFromAsciiStl_rejects_witness:
  "ReadLine \<lparr>data = ''vertex 1.0 abc 3.0'' @ [CHR 0x0A], pos = 0\<rparr> True =
     Some (True, ''vertex 1.0 abc 3.0'',
           \<lparr>data = ''vertex 1.0 abc 3.0'' @ [CHR 0x0A], pos = 19\<rparr>) \<and>
   4 \<le> length (StringFields ''vertex 1.0 abc 3.0'') \<and>
   StringFields ''vertex 1.0 abc 3.0'' ! 0 = ''vertex'' \<and>
   (2::nat) \<in> {1, 2, 3} \<and>
   bad_coordinate integer_fp (StringFields ''vertex 1.0 abc 3.0'' ! 2) \<and>
   fp_is_zero integer_fp (fp_atof integer_fp ''abc'') \<and>
   ReadVertexFromAsciiStl integer_fp \<lparr>data = ''vertex 1.0 abc 3.0'' @ [CHR 0x0A], pos = 0\<rparr> =
     Some (Inl (FormatError invalid_coordinates))"
proof -
  have line: "ReadLine \<lparr>data = ''vertex 1.0 abc 3.0'' @ [CHR 0x0A], pos = 0\<rparr> True =
              Some (True, ''vertex 1.0 abc 3.0'',
                    \<lparr>data = ''vertex 1.0 abc 3.0'' @ [CHR 0x0A], pos = 19\<rparr>)"
    by code_simp
  have flds: "StringFields ''vertex 1.0 abc 3.0'' = [''vertex'', ''1.0'', ''abc'', ''3.0'']"
    by code_simp
  have zero: "fp_is_zero integer_fp (fp_atof integer_fp ''abc'')"
    by (simp add: integer_atof_abc) (simp add: integer_fp_def)
  have bad: "bad_coordinate integer_fp (StringFields ''vertex 1.0 abc 3.0'' ! 2)"
    using zero by (simp add: flds bad_coordinate_def first_char_def)
  have len: "4 \<le> length (StringFields ''vertex 1.0 abc 3.0'')"
    and kw: "StringFields ''vertex 1.0 abc 3.0'' ! 0 = ''vertex''"
    by (simp_all add: flds)
  have two: "(2::nat) \<in> {1, 2, 3}"
    by simp
  have "ReadVertexFromAsciiStl integer_fp
          \<lparr>data = ''vertex 1.0 abc 3.0'' @ [CHR 0x0A], pos = 0\<rparr> =
        Some (Inl (FormatError invalid_coordinates))"
    using ReadVertexFromAsciiStl_rejects
            [of "\<lparr>data = ''vertex 1.0 abc 3.0'' @ [CHR 0x0A], pos = 0\<rparr>"
                "''vertex 1.0 abc 3.0''"
                "\<lparr>data = ''vertex 1.0 abc 3.0'' @ [CHR 0x0A], pos = 19\<rparr>" 2 integer_fp]
          line len kw two bad
    by blast
  then show ?thesis
    using line len kw two bad zero by blast
qed


section \<open>Verification: the header of the input\<close>

lemma ReadLine_chars_eof:
  "length (data f) \<le> pos f \<Longrightarrow> ReadLine_chars f text readAny = (f, text, readAny)"
  by (subst ReadLine_chars.simps) (simp add: Read_def Let_def)

text \<open>
  At the end of the file the inner loop of \<^verbatim>\<open>ReadLine\<close> reads nothing. When blank lines
  are skipped and \<^verbatim>\<open>readAny\<close> is already set, the text stays empty and the condition of
  the \<^verbatim>\<open>do ... while\<close> stays true: the call does not return.
\<close>

lemma ReadLine_lines_stuck:
  assumes "length (data f) \<le> pos f"
  shows "ReadLine_lines f True True = None"
proof (cases "ReadLine_lines f True True")
  case None
  then show ?thesis .
next
  case (Some y)
  have "\<not> (length (data f) \<le> pos f \<and> True \<and> True)"
  proof (rule ReadLine_lines.raw_induct
      [where P = "\<lambda>f skipBlankLines readAny y.
                    \<not> (length (data f) \<le> pos f \<and> skipBlankLines \<and> readAny)", OF _ Some])
    fix lines f skipBlankLines readAny y
    assume ih: "\<And>f skipBlankLines readAny y.
        lines f skipBlankLines readAny = Some y \<Longrightarrow>
        \<not> (length (data f) \<le> pos f \<and> skipBlankLines \<and> readAny)"
      and body: "(case ReadLine_chars f [] readAny of
        (f', text, readAny') \<Rightarrow>
          if (skipBlankLines \<and> text = []) \<and> readAny'
          then lines f' skipBlankLines readAny'
          else Some (readAny', text, f')) = Some y"
    show "\<not> (length (data f) \<le> pos f \<and> skipBlankLines \<and> readAny)"
    proof
      assume stuck: "length (data f) \<le> pos f \<and> skipBlankLines \<and> readAny"
      then have "lines f skipBlankLines readAny = Some y"
        using body by (simp add: ReadLine_chars_eof)
      then show False
        using ih stuck by blast
    qed
  qed
  then show ?thesis
    using assms by simp
qed

lemma unat_32_bound: "unat (n :: 32 word) < 2 ^ 32"
  using unsigned_less [where ?'a = nat and w = n] by simp

lemma size_t_of_nat_eq:
  "a < 2 ^ 64 \<Longrightarrow> b < 2 ^ 64 \<Longrightarrow> ((of_nat a :: size_t) = of_nat b) = (a = b)"
  by (simp add: word_of_nat_eq_iff take_bit_nat_eq_self)

lemma numFacets_less_1: "((ucast (n :: 32 word) :: size_t) < 1) = (unat n = 0)"
proof -
  have "unat n < 2 ^ 64"
    using unat_32_bound [of n] by (rule less_trans) simp
  then have "((of_nat (unat n) :: size_t) = of_nat 0) = (unat n = 0)"
    by (intro size_t_of_nat_eq) simp_all
  then show ?thesis
    by simp
qed

lemma expectedLength:
  "(80 + 4 + ucast (n :: 32 word) * of_nat sizeof_BinaryStlRecord :: size_t) =
   of_nat (84 + 50 * unat n)"
  by (simp add: sizeof_BinaryStlRecord_def)

text \<open>
  The first half of C1, for a file below 2GB (where \<^verbatim>\<open>Length\<close> is exact) and a 64-bit
  \<^verbatim>\<open>size_t\<close>: the file is taken as binary if and only if the four bytes of the facet
  count can be read, the count is at least 1, and the length of the file is 84 plus 50
  times the count.
\<close>

lemma IsBinaryStl_iff:
  assumes "length (data f) < 2 ^ 31"
  shows "fst (IsBinaryStl f) \<longleftrightarrow>
         84 \<le> length (data f) \<and> 1 \<le> unat (facet_count f) \<and>
         length (data f) = 84 + 50 * unat (facet_count f)"
proof -
  let ?n = "facet_count f"
  have rd: "Read (f\<lparr>pos := 80\<rparr>) 4 =
            (take 4 (drop 80 (data f)), f\<lparr>pos := 80 + length (take 4 (drop 80 (data f)))\<rparr>)"
    by (simp add: Read_def Let_def)
  have len4: "length (take 4 (drop 80 (data f))) = 4 \<longleftrightarrow> 84 \<le> length (data f)"
    by auto
  have zero: "?n < 1 \<longleftrightarrow> unat ?n = 0"
    by (simp add: unsigned_eq_0_iff)
  have bound: "84 + 50 * unat ?n < 2 ^ 64"
    using unat_32_bound [of ?n] by simp
  have "length (data f) < 2 ^ 64"
    using assms by (rule less_trans) simp
  then have eq: "(of_nat (length (data f)) :: size_t) = of_nat (84 + 50 * unat ?n) \<longleftrightarrow>
             length (data f) = 84 + 50 * unat ?n"
    using bound by (rule size_t_of_nat_eq)
  have hdr: "ReadHeaderFromBinaryStl f =
     (if 84 \<le> length (data f)
      then if unat ?n = 0
           then (Inl (FormatError ''Facet count in file header is not valid.''),
                 f\<lparr>pos := 84\<rparr>)
           else (Inr (ucast ?n), f\<lparr>pos := 84\<rparr>)
      else (Inl (FormatError ''Failed reading facet count from binary STL file.''),
            f\<lparr>pos := 80 + length (take 4 (drop 80 (data f)))\<rparr>))"
    using len4 zero
    by (simp add: ReadHeaderFromBinaryStl_def Seek_def rd facet_count_def Let_def)
  show ?thesis
    using eq
    by (simp add: IsBinaryStl_def hdr numFacets_less_1 [simplified] Length_def Let_def
          expectedLength [simplified])
qed

lemma ReadLine_blank_file: "ReadLine blank_file True = None"
proof -
  have chars: "ReadLine_chars blank_file [] False = (blank_file\<lparr>pos := 2\<rparr>, [], True)"
    unfolding blank_file_def by code_simp
  have "ReadLine_lines (blank_file\<lparr>pos := 2\<rparr>) True True = None"
    by (rule ReadLine_lines_stuck) (simp add: blank_file_def)
  then show ?thesis
    unfolding ReadLine_def by (subst ReadLine_lines.simps) (simp add: chars)
qed

lemma IsBinaryStl_file: "IsBinaryStl f = (b, f') \<Longrightarrow> f'\<lparr>pos := p\<rparr> = f\<lparr>pos := p\<rparr>"
  by (auto simp: IsBinaryStl_def ReadHeaderFromBinaryStl_def Seek_def Read_def Let_def
        split: if_splits)

text \<open>
  The second half of C1, when \<^verbatim>\<open>ReadHeaderFromStl\<close> returns or throws: a file that is not
  taken as binary is read as ASCII from its start, and the header is accepted only when
  the first field of the line that \<^verbatim>\<open>ReadLine\<close> returns is \<open>solid\<close>; everything
  else is a format error.
\<close>

lemma ReadHeaderFromStl_ascii_fallback:
  assumes "\<not> fst (IsBinaryStl ((m_infile r)\<lparr>pos := 0\<rparr>))"
    and "ReadHeaderFromStl r = Some res"
  shows "(\<exists>msg. res = Inl (FormatError msg)) \<or>
         (\<exists>text f1 r'. res = Inr r' \<and> \<not> m_isBinaryStl r' \<and>
            ReadLine ((m_infile r)\<lparr>pos := 0\<rparr>) True = Some (True, text, f1) \<and>
            StringFields text \<noteq> [] \<and> StringFields text ! 0 = ''solid'')"
proof -
  obtain b f' where ib: "IsBinaryStl ((m_infile r)\<lparr>pos := 0\<rparr>) = (b, f')"
    by (cases "IsBinaryStl ((m_infile r)\<lparr>pos := 0\<rparr>)") blast
  then have nb: "\<not> b"
    using assms(1) by simp
  have rewound: "f'\<lparr>pos := 0\<rparr> = (m_infile r)\<lparr>pos := 0\<rparr>"
    using IsBinaryStl_file [OF ib, of 0] by simp
  show ?thesis
    using assms(2) ib nb rewound
    by (auto simp: ReadHeaderFromStl_def ReadHeaderFromAsciiStl_def Seek_def Let_def
          split: option.splits if_splits)
qed

text \<open>
  C1 does not hold of the file that is one empty line ended by CR LF: it is not binary,
  and reading its header as ASCII neither accepts it nor throws a format error, because
  \<^verbatim>\<open>ReadLine\<close> does not return. The conversion of this file does not end.
\<close>

theorem ReadHeaderFromStl_blank_file:
  "\<not> fst (IsBinaryStl blank_file) \<and>
   ReadHeaderFromStl
     \<lparr>m_infile = blank_file, m_isBinaryStl = False, m_numFacets = 0, m_curFacet = 0\<rparr> = None \<and>
   ConvertStlToWrl fp blank_file outFile = None"
proof -
  have nb: "IsBinaryStl blank_file = (False, blank_file\<lparr>pos := 80\<rparr>)"
    unfolding blank_file_def by code_simp
  have p0: "blank_file\<lparr>pos := 0\<rparr> = blank_file"
    by (simp add: blank_file_def)
  have hdr: "ReadHeaderFromStl
     \<lparr>m_infile = blank_file, m_isBinaryStl = False, m_numFacets = 0, m_curFacet = 0\<rparr> = None"
    by (simp add: ReadHeaderFromStl_def ReadHeaderFromAsciiStl_def Seek_def p0 nb
          ReadLine_blank_file)
  show ?thesis
    using nb hdr by (simp add: ConvertStlToWrl_def)
qed

text \<open>C1, the same run with integer coordinates and a new output file.\<close>

theorem ReadHeaderFromStl_blank_file_witness:
  "\<not> fst (IsBinaryStl blank_file) \<and>
   ReadHeaderFromStl
     \<lparr>m_infile = blank_file, m_isBinaryStl = False, m_numFacets = 0, m_curFacet = 0\<rparr> = None \<and>
   ConvertStlToWrl integer_fp blank_file \<lparr>written = [], faults = []\<rparr> = None"
  using ReadHeaderFromStl_blank_file [of integer_fp "\<lparr>written = [], faults = []\<rparr>"] .


section \<open>Verification: runs of the conversion\<close>


lemma facet_cut_lines:
  "ReadLine (facet_cut_file\<lparr>pos := 8\<rparr>) True =
     Some (True, ''facet normal 0 0 1'', facet_cut_file\<lparr>pos := 27\<rparr>)"
  "ReadLine (facet_cut_file\<lparr>pos := 27\<rparr>) True = Some (False, [], facet_cut_file\<lparr>pos := 27\<rparr>)"
  "StringFields ''facet normal 0 0 1'' = [''facet'', ''normal'', ''0'', ''0'', ''1'']"
  by code_simp+

lemma facet_cut_header:
  "ReadHeaderFromStl
     \<lparr>m_infile = facet_cut_file, m_isBinaryStl = False, m_numFacets = 0, m_curFacet = 0\<rparr> =
   Some (Inr \<lparr>m_infile = facet_cut_file\<lparr>pos := 8\<rparr>, m_isBinaryStl = False, m_numFacets = 0,
              m_curFacet = 0\<rparr>)"
  by code_simp

lemma WriteEndOfWrl_empty:
  "faults (m_file w) = [] \<Longrightarrow> m_triangles w = [] \<Longrightarrow>
   \<exists>w'. WriteEndOfWrl fp w emin emax = Inr w' \<and>
        count_format shape_open (m_file w') = count_format shape_open (m_file w) \<and>
        count_format index_end (m_file w') = count_format index_end (m_file w)"
  by (simp add: WriteEndOfWrl_def then_do_def Printf_throw_def Printf_def count_format_def
        shape_open_def index_end_def crlf_def)



lemma conversion_without_facets:
  assumes hdr: "ReadHeaderFromStl
       \<lparr>m_infile = inFile, m_isBinaryStl = False, m_numFacets = 0, m_curFacet = 0\<rparr> =
     Some (Inr r)"
    and rd: "ReadFacetFromStl fp r [] = Some (Inr (False, coords, r'))"
  shows "\<exists>w. ConvertStlToWrl fp inFile new_file = Some (Inr w) \<and>
             count_format shape_open (m_file w) = 0 \<and>
             count_format index_end (m_file w) = 0"
proof -
  let ?w = "\<lparr>m_file = \<lparr>written = [(''#VRML V2.0 utf8'' @ crlf @
                 ''# Model converted by stl2vrml.'' @ crlf, [])], faults = []\<rparr>,
             m_triangles = []\<rparr> :: 'a VrmlWriter"
  let ?emin = "\<lparr>pt_x = fp_DBL_MAX fp, pt_y = fp_DBL_MAX fp, pt_z = fp_DBL_MAX fp\<rparr>"
  let ?emax = "\<lparr>pt_x = fp_neg fp (fp_DBL_MAX fp), pt_y = fp_neg fp (fp_DBL_MAX fp),
               pt_z = fp_neg fp (fp_DBL_MAX fp)\<rparr>"
  have start: "WriteStartOfWrl \<lparr>m_file = new_file, m_triangles = []\<rparr> = Inr ?w"
    by (simp add: WriteStartOfWrl_def then_do_def Printf_throw_def Printf_def new_file_def)
  have loop: "ConvertStlToWrl_loop fp r ?w (?emin, ?emax) [] = Some (Inr (r', ?w, ?emin, ?emax))"
    by (subst ConvertStlToWrl_loop.simps) (simp add: rd)
  have "\<exists>w'. WriteEndOfWrl fp ?w ?emin ?emax = Inr w' \<and>
          count_format shape_open (m_file w') = count_format shape_open (m_file ?w) \<and>
          count_format index_end (m_file w') = count_format index_end (m_file ?w)"
    by (rule WriteEndOfWrl_empty) simp_all
  then obtain w' where fin: "WriteEndOfWrl fp ?w ?emin ?emax = Inr w'"
    and cnt: "count_format shape_open (m_file w') = count_format shape_open (m_file ?w)"
      "count_format index_end (m_file w') = count_format index_end (m_file ?w)"
    by blast
  have "count_format shape_open (m_file ?w) = 0" "count_format index_end (m_file ?w) = 0"
    by (simp_all add: count_format_def shape_open_def index_end_def crlf_def)
  then have zero: "count_format shape_open (m_file w') = 0" "count_format index_end (m_file w') = 0"
    using cnt by simp_all
  have "ConvertStlToWrl fp inFile new_file = Some (Inr w')"
    unfolding ConvertStlToWrl_def hdr
    by (simp only: start loop fin Let_def option.case sum.case prod.case)
  then show ?thesis
    using zero by blast
qed

text \<open>
  C3 does not hold when the input ends right after the \<open>facet\<close> line: the failed read of
  the \<open>outer loop\<close> line makes \<^verbatim>\<open>ReadFacetFromAsciiStl\<close> return false, the clean end of
  the triangles, and the conversion ends well with no geometry node. (A failed read of a
  \<open>vertex\<close>, \<open>end loop\<close> or \<open>end facet\<close> line throws.)
\<close>

theorem ReadFacetFromAsciiStl_facet_cut:
  "ReadFacetFromAsciiStl fp (facet_cut_file\<lparr>pos := 8\<rparr>) [] =
     Some (Inr (False, [], facet_cut_file\<lparr>pos := 27\<rparr>)) \<and>
   (\<exists>w. ConvertStlToWrl fp facet_cut_file new_file = Some (Inr w) \<and>
        count_format shape_open (m_file w) = 0 \<and> count_format index_end (m_file w) = 0)"
proof -
  have rd: "ReadFacetFromAsciiStl fp (facet_cut_file\<lparr>pos := 8\<rparr>) [] =
     Some (Inr (False, [], facet_cut_file\<lparr>pos := 27\<rparr>))"
    by (simp add: ReadFacetFromAsciiStl_def facet_cut_lines)
  then have "ReadFacetFromStl fp
       \<lparr>m_infile = facet_cut_file\<lparr>pos := 8\<rparr>, m_isBinaryStl = False, m_numFacets = 0,
        m_curFacet = 0\<rparr> [] =
     Some (Inr (False, [],
       \<lparr>m_infile = facet_cut_file\<lparr>pos := 27\<rparr>, m_isBinaryStl = False, m_numFacets = 0,
        m_curFacet = 0\<rparr>))"
    by (simp add: ReadFacetFromStl_def)
  from conversion_without_facets [OF facet_cut_header this] rd show ?thesis
    by blast
qed

text \<open>C3, the same run with integer coordinates.\<close>

theorem ReadFacetFromAsciiStl_facet_cut_witness:
  "ReadFacetFromAsciiStl integer_fp (facet_cut_file\<lparr>pos := 8\<rparr>) [] =
     Some (Inr (False, [], facet_cut_file\<lparr>pos := 27\<rparr>)) \<and>
   (\<exists>w. ConvertStlToWrl integer_fp facet_cut_file new_file = Some (Inr w) \<and>
        count_format shape_open (m_file w) = 0 \<and> count_format index_end (m_file w) = 0)"
  using ReadFacetFromAsciiStl_facet_cut [of integer_fp] .

lemma blank_line_header:
  "ReadHeaderFromStl
     \<lparr>m_infile = blank_line_file, m_isBinaryStl = False, m_numFacets = 0, m_curFacet = 0\<rparr> =
   Some (Inr \<lparr>m_infile = blank_line_file\<lparr>pos := 8\<rparr>, m_isBinaryStl = False, m_numFacets = 0,
              m_curFacet = 0\<rparr>)"
  by code_simp

lemma blank_line_read:
  "ReadLine (blank_line_file\<lparr>pos := 8\<rparr>) True = Some (False, [], blank_line_file\<lparr>pos := 9\<rparr>)"
  by code_simp

text \<open>
  C2 does not hold of an ASCII model with LF line endings and an empty line: the call of
  \<^verbatim>\<open>ReadLine\<close> that meets the empty line first returns false (\<^verbatim>\<open>readAny\<close> is not
  set by a line feed), which ends the triangles. The model of one facet with an empty
  line after \<open>solid\<close> is converted, without error, to an output with no index line.
\<close>

theorem ConvertStlToWrl_blank_line:
  "\<exists>w. ConvertStlToWrl fp blank_line_file new_file = Some (Inr w) \<and>
       count_format shape_open (m_file w) = 0 \<and> count_format index_end (m_file w) = 0"
proof -
  have "ReadFacetFromStl fp
       \<lparr>m_infile = blank_line_file\<lparr>pos := 8\<rparr>, m_isBinaryStl = False, m_numFacets = 0,
        m_curFacet = 0\<rparr> [] =
     Some (Inr (False, [],
       \<lparr>m_infile = blank_line_file\<lparr>pos := 9\<rparr>, m_isBinaryStl = False, m_numFacets = 0,
        m_curFacet = 0\<rparr>))"
    by (simp add: ReadFacetFromStl_def ReadFacetFromAsciiStl_def blank_line_read)
  from conversion_without_facets [OF blank_line_header this] show ?thesis .
qed

lemma one_facet_converted:
  "map_option (map_sum (\<lambda>e. ()) (\<lambda>w. count_format index_end (m_file w)))
     (ConvertStlToWrl integer_fp one_facet_file new_file) = Some (Inr 1)"
  by code_simp

text \<open>
  C2, the same run with integer coordinates; without the empty line the same model gives
  one index line.
\<close>

theorem ConvertStlToWrl_blank_line_witness:
  "(\<exists>w. ConvertStlToWrl integer_fp blank_line_file new_file = Some (Inr w) \<and>
        count_format shape_open (m_file w) = 0 \<and> count_format index_end (m_file w) = 0) \<and>
   (\<exists>w. ConvertStlToWrl integer_fp one_facet_file new_file = Some (Inr w) \<and>
        count_format index_end (m_file w) = 1)"
proof -
  have "\<exists>w. ConvertStlToWrl integer_fp one_facet_file new_file = Some (Inr w) \<and>
        count_format index_end (m_file w) = 1"
    using one_facet_converted
    by (cases "ConvertStlToWrl integer_fp one_facet_file (new_file :: int OutFile)")
      (auto simp: map_sum_def split: sum.splits)
  then show ?thesis
    using ConvertStlToWrl_blank_line [of integer_fp] by blast
qed

text \<open>
  C8 does not hold of the \<open>position\<close> line of the Viewpoint node: the second format that
  \<^verbatim>\<open>WriteEndOfWrl\<close> writes ends with a line feed that no carriage return precedes.
\<close>

theorem WriteEndOfWrl_position_line:
  "\<exists>w'. WriteEndOfWrl fp \<lparr>m_file = new_file, m_triangles = []\<rparr> emin emax = Inr w' \<and>
        fst (written (m_file w') ! 1) = ''  position %G %G %G'' @ [CHR 0x0A] \<and>
        \<not> ends_with_crlf (fst (written (m_file w') ! 1))"
  by (simp add: WriteEndOfWrl_def then_do_def Printf_throw_def Printf_def new_file_def
        ends_with_crlf_def crlf_def)

text \<open>C8, the same run with integer coordinates.\<close>

theorem WriteEndOfWrl_position_line_witness:
  "\<exists>w'. WriteEndOfWrl integer_fp \<lparr>m_file = new_file, m_triangles = []\<rparr>
          \<lparr>pt_x = 0, pt_y = 0, pt_z = 0\<rparr> \<lparr>pt_x = 1, pt_y = 1, pt_z = 0\<rparr> = Inr w' \<and>
        fst (written (m_file w') ! 1) = ''  position %G %G %G'' @ [CHR 0x0A] \<and>
        \<not> ends_with_crlf (fst (written (m_file w') ! 1))"
  using WriteEndOfWrl_position_line [of integer_fp] .

end
